theory Spec2Isabelle
  imports Complex_Main
begin

section \<open>JavaScript primitives used by the search proxy\<close>

text \<open>
  Strings are lists of 8-bit characters, and the conversions of case act on the ASCII
  letters (the airport table and the patterns the handler matches against are ASCII).
  Numbers that count results or pages are unbounded integers and \<open>NaN\<close> is \<open>None\<close>. They agree
  with the doubles of JavaScript on the safe integers, those of magnitude below 2 to the
  power 53 (\<open>safe_integer\<close> below). Beyond that range JavaScript rounds what \<open>parseInt\<close> reads
  to the nearest double (\<open>Infinity\<close> for a long enough string of digits) and, from 10 to the
  power 21 on, prints a number with an exponent; none of this is modelled, and the
  statements about pages and result counts are made for safe integers only. The rounding
  being monotone, the comparisons of the number of adults with 1 and 9 are not affected.
  Timing values, which may be fractional, are reals. A provider's answer is a JSON object
  of the shape the handler expects, each key present or absent, so that no exception is
  raised once the provider has answered.
\<close>

subsection \<open>Characters and strings\<close>

definition code_unit :: "char \<Rightarrow> nat" where
  "code_unit c = of_char c"

definition is_space :: "char \<Rightarrow> bool" where
  \<comment> \<open>the white space of \<open>\s\<close>, \<open>trim\<close> and \<open>parseInt\<close>: TAB, LF, VT, FF, CR, SP, NBSP\<close>
  "is_space c = (code_unit c \<in> {9, 10, 11, 12, 13, 32, 160})"

definition is_upper :: "char \<Rightarrow> bool" where
  "is_upper c = (65 \<le> code_unit c \<and> code_unit c \<le> 90)"

definition is_lower :: "char \<Rightarrow> bool" where
  "is_lower c = (97 \<le> code_unit c \<and> code_unit c \<le> 122)"

definition is_digit :: "char \<Rightarrow> bool" where
  "is_digit c = (48 \<le> code_unit c \<and> code_unit c \<le> 57)"

definition to_lower_char :: "char \<Rightarrow> char" where
  "to_lower_char c = (if is_upper c then char_of (code_unit c + 32) else c)"

definition to_upper_char :: "char \<Rightarrow> char" where
  "to_upper_char c = (if is_lower c then char_of (code_unit c - 32) else c)"

definition toLowerCase :: "string \<Rightarrow> string" where
  "toLowerCase s = map to_lower_char s"

definition toUpperCase :: "string \<Rightarrow> string" where
  "toUpperCase s = map to_upper_char s"

definition trim :: "string \<Rightarrow> string" where
  "trim s = rev (dropWhile is_space (rev (dropWhile is_space s)))"

definition startsWith :: "string \<Rightarrow> string \<Rightarrow> bool" where
  \<comment> \<open>\<open>startsWith s t\<close> is \<open>s.startsWith(t)\<close>\<close>
  "startsWith s t = (take (length t) s = t)"

fun str_includes :: "string \<Rightarrow> string \<Rightarrow> bool" where
  \<comment> \<open>\<open>str_includes s t\<close> is \<open>s.includes(t)\<close>\<close>
  "str_includes [] t = (t = [])"
| "str_includes (c # cs) t = (startsWith (c # cs) t \<or> str_includes cs t)"

subsection \<open>Numbers and their decimal text\<close>

definition digit_char :: "nat \<Rightarrow> char" where
  "digit_char d = char_of (48 + d)"

fun digits :: "nat \<Rightarrow> string" where
  "digits n = (if n < 10 then [digit_char n] else digits (n div 10) @ [digit_char (n mod 10)])"

declare digits.simps [simp del]

definition safe_integer :: "int \<Rightarrow> bool" where
  \<comment> \<open>\<open>Number.isSafeInteger\<close>: the integers every one of which is a double of its own\<close>
  "safe_integer n = (\<bar>n\<bar> < 2 ^ 53)"

definition toString :: "int \<Rightarrow> string" where
  \<comment> \<open>\<open>Number.prototype.toString\<close> on a safe integer: the decimal digits, without exponent\<close>
  "toString n = (if n < 0 then CHR ''-'' # digits (nat (- n)) else digits (nat n))"

definition hex_value :: "char \<Rightarrow> nat option" where
  "hex_value c =
     (if is_digit c then Some (code_unit c - 48)
      else if 97 \<le> code_unit c \<and> code_unit c \<le> 102 then Some (code_unit c - 87)
      else if 65 \<le> code_unit c \<and> code_unit c \<le> 70 then Some (code_unit c - 55)
      else None)"

definition digit_value :: "nat \<Rightarrow> char \<Rightarrow> nat option" where
  \<comment> \<open>the value of a character as a digit of the given radix (10 or 16)\<close>
  "digit_value radix c =
     (case hex_value c of None \<Rightarrow> None | Some v \<Rightarrow> if v < radix then Some v else None)"

definition number_of_digits :: "nat \<Rightarrow> string \<Rightarrow> nat" where
  "number_of_digits radix ds = foldl (\<lambda>acc c. acc * radix + the (digit_value radix c)) 0 ds"

definition parse_digits :: "nat \<Rightarrow> string \<Rightarrow> int option" where
  \<comment> \<open>the longest prefix of digits; no digit at all is \<open>NaN\<close>\<close>
  "parse_digits radix s =
     (let ds = takeWhile (\<lambda>c. digit_value radix c \<noteq> None) s
      in if ds = [] then None else Some (int (number_of_digits radix ds)))"

definition parse_unsigned :: "string \<Rightarrow> int option" where
  \<comment> \<open>a \<open>0x\<close> or \<open>0X\<close> prefix selects radix 16\<close>
  "parse_unsigned s =
     (if startsWith s ''0x'' \<or> startsWith s ''0X'' then parse_digits 16 (drop 2 s)
      else parse_digits 10 s)"

definition parseInt :: "string \<Rightarrow> int option" where
  \<comment> \<open>\<open>parseInt(s)\<close> without a radix argument; \<open>None\<close> is \<open>NaN\<close>. The result is the integer the
      digits denote, which is what JavaScript returns when that integer is safe\<close>
  "parseInt s =
     (case dropWhile is_space s of
        [] \<Rightarrow> None
      | c # cs \<Rightarrow>
          if c = CHR ''-'' then map_option uminus (parse_unsigned cs)
          else if c = CHR ''+'' then parse_unsigned cs
          else parse_unsigned (c # cs))"

definition ceil_div :: "int \<Rightarrow> int \<Rightarrow> int" where
  \<comment> \<open>\<open>Math.ceil(n / d)\<close> for a safe integer \<open>n\<close> and \<open>d\<close> = 20, where the rounding of the
      quotient to a double does not change its ceiling\<close>
  "ceil_div n d = - ((- n) div d)"

subsection \<open>Values that are a number or a string\<close>

datatype jsval = JUndefined | JNumber int | JString string

fun truthy :: "jsval \<Rightarrow> bool" where
  "truthy JUndefined = False"
| "truthy (JNumber n) = (n \<noteq> 0)"
| "truthy (JString s) = (s \<noteq> [])"

fun js_String :: "jsval \<Rightarrow> string" where
  \<comment> \<open>\<open>String(v)\<close>, for a number that is a safe integer\<close>
  "js_String JUndefined = ''undefined''"
| "js_String (JNumber n) = toString n"
| "js_String (JString s) = s"

definition or_else :: "jsval \<Rightarrow> jsval \<Rightarrow> jsval" where
  \<comment> \<open>\<open>a || b\<close>\<close>
  "or_else a b = (if truthy a then a else b)"

definition num_lt :: "int option \<Rightarrow> int \<Rightarrow> bool" where
  \<comment> \<open>\<open>p < n\<close>, false when \<open>p\<close> is \<open>NaN\<close>\<close>
  "num_lt p n = (case p of None \<Rightarrow> False | Some x \<Rightarrow> x < n)"

definition num_gt :: "int option \<Rightarrow> int \<Rightarrow> bool" where
  \<comment> \<open>\<open>p > n\<close>, false when \<open>p\<close> is \<open>NaN\<close>\<close>
  "num_gt p n = (case p of None \<Rightarrow> False | Some x \<Rightarrow> x > n)"

section \<open>The airport table and its lookup (lib/airports)\<close>

record Airport =
  code :: string
  name :: string
  city :: string
  country :: string

definition airports :: "Airport list" where
  "airports = [
     \<lparr>code = ''JFK'', name = ''John F. Kennedy International Airport'',
      city = ''New York'', country = ''US''\<rparr>,
     \<lparr>code = ''LGA'', name = ''LaGuardia Airport'',
      city = ''New York'', country = ''US''\<rparr>,
     \<lparr>code = ''EWR'', name = ''Newark Liberty International Airport'',
      city = ''New York'', country = ''US''\<rparr>,
     \<lparr>code = ''LAX'', name = ''Los Angeles International Airport'',
      city = ''Los Angeles'', country = ''US''\<rparr>,
     \<lparr>code = ''SFO'', name = ''San Francisco International Airport'',
      city = ''San Francisco'', country = ''US''\<rparr>,
     \<lparr>code = ''ORD'', name = (''O'' @ [CHR 0x27] @ ''Hare International Airport''),
      city = ''Chicago'', country = ''US''\<rparr>,
     \<lparr>code = ''MDW'', name = ''Midway International Airport'',
      city = ''Chicago'', country = ''US''\<rparr>,
     \<lparr>code = ''MIA'', name = ''Miami International Airport'',
      city = ''Miami'', country = ''US''\<rparr>,
     \<lparr>code = ''DFW'', name = ''Dallas/Fort Worth International Airport'',
      city = ''Dallas'', country = ''US''\<rparr>,
     \<lparr>code = ''DEN'', name = ''Denver International Airport'',
      city = ''Denver'', country = ''US''\<rparr>,
     \<lparr>code = ''ATL'', name = ''Hartsfield-Jackson Atlanta International Airport'',
      city = ''Atlanta'', country = ''US''\<rparr>,
     \<lparr>code = ''SEA'', name = ''Seattle-Tacoma International Airport'',
      city = ''Seattle'', country = ''US''\<rparr>,
     \<lparr>code = ''LAS'', name = ''McCarran International Airport'',
      city = ''Las Vegas'', country = ''US''\<rparr>,
     \<lparr>code = ''PHX'', name = ''Phoenix Sky Harbor International Airport'',
      city = ''Phoenix'', country = ''US''\<rparr>,
     \<lparr>code = ''BOS'', name = ''Logan International Airport'',
      city = ''Boston'', country = ''US''\<rparr>,
     \<lparr>code = ''MSP'', name = ''Minneapolis-Saint Paul International Airport'',
      city = ''Minneapolis'', country = ''US''\<rparr>,
     \<lparr>code = ''DTW'', name = ''Detroit Metropolitan Wayne County Airport'',
      city = ''Detroit'', country = ''US''\<rparr>,
     \<lparr>code = ''PHL'', name = ''Philadelphia International Airport'',
      city = ''Philadelphia'', country = ''US''\<rparr>,
     \<lparr>code = ''CLT'', name = ''Charlotte Douglas International Airport'',
      city = ''Charlotte'', country = ''US''\<rparr>,
     \<lparr>code = ''IAH'', name = ''George Bush Intercontinental Airport'',
      city = ''Houston'', country = ''US''\<rparr>,
     \<lparr>code = ''HOU'', name = ''William P. Hobby Airport'',
      city = ''Houston'', country = ''US''\<rparr>,
     \<lparr>code = ''LHR'', name = ''London Heathrow Airport'',
      city = ''London'', country = ''UK''\<rparr>,
     \<lparr>code = ''LGW'', name = ''London Gatwick Airport'',
      city = ''London'', country = ''UK''\<rparr>,
     \<lparr>code = ''CDG'', name = ''Charles de Gaulle Airport'',
      city = ''Paris'', country = ''FR''\<rparr>,
     \<lparr>code = ''ORY'', name = ''Orly Airport'',
      city = ''Paris'', country = ''FR''\<rparr>,
     \<lparr>code = ''FRA'', name = ''Frankfurt Airport'',
      city = ''Frankfurt'', country = ''DE''\<rparr>,
     \<lparr>code = ''AMS'', name = ''Amsterdam Airport Schiphol'',
      city = ''Amsterdam'', country = ''NL''\<rparr>,
     \<lparr>code = ''MAD'', name = ''Madrid-Barajas Airport'',
      city = ''Madrid'', country = ''ES''\<rparr>,
     \<lparr>code = ''BCN'', name = ''Barcelona-El Prat Airport'',
      city = ''Barcelona'', country = ''ES''\<rparr>,
     \<lparr>code = ''FCO'', name = ''Leonardo da Vinci International Airport'',
      city = ''Rome'', country = ''IT''\<rparr>,
     \<lparr>code = ''MXP'', name = ''Malpensa Airport'',
      city = ''Milan'', country = ''IT''\<rparr>,
     \<lparr>code = ''ZUR'', name = ''Zurich Airport'',
      city = ''Zurich'', country = ''CH''\<rparr>,
     \<lparr>code = ''VIE'', name = ''Vienna International Airport'',
      city = ''Vienna'', country = ''AT''\<rparr>,
     \<lparr>code = ''CPH'', name = ''Copenhagen Airport'',
      city = ''Copenhagen'', country = ''DK''\<rparr>,
     \<lparr>code = ''ARN'', name = ''Stockholm Arlanda Airport'',
      city = ''Stockholm'', country = ''SE''\<rparr>,
     \<lparr>code = ''OSL'', name = ''Oslo Airport'',
      city = ''Oslo'', country = ''NO''\<rparr>,
     \<lparr>code = ''NRT'', name = ''Narita International Airport'',
      city = ''Tokyo'', country = ''JP''\<rparr>,
     \<lparr>code = ''HND'', name = ''Haneda Airport'',
      city = ''Tokyo'', country = ''JP''\<rparr>,
     \<lparr>code = ''ICN'', name = ''Incheon International Airport'',
      city = ''Seoul'', country = ''KR''\<rparr>,
     \<lparr>code = ''PEK'', name = ''Beijing Capital International Airport'',
      city = ''Beijing'', country = ''CN''\<rparr>,
     \<lparr>code = ''PVG'', name = ''Shanghai Pudong International Airport'',
      city = ''Shanghai'', country = ''CN''\<rparr>,
     \<lparr>code = ''HKG'', name = ''Hong Kong International Airport'',
      city = ''Hong Kong'', country = ''HK''\<rparr>,
     \<lparr>code = ''SIN'', name = ''Singapore Changi Airport'',
      city = ''Singapore'', country = ''SG''\<rparr>,
     \<lparr>code = ''BKK'', name = ''Suvarnabhumi Airport'',
      city = ''Bangkok'', country = ''TH''\<rparr>,
     \<lparr>code = ''KUL'', name = ''Kuala Lumpur International Airport'',
      city = ''Kuala Lumpur'', country = ''MY''\<rparr>,
     \<lparr>code = ''YYZ'', name = ''Toronto Pearson International Airport'',
      city = ''Toronto'', country = ''CA''\<rparr>,
     \<lparr>code = ''YVR'', name = ''Vancouver International Airport'',
      city = ''Vancouver'', country = ''CA''\<rparr>,
     \<lparr>code = ''YUL'', name = ''Montreal-Pierre Elliott Trudeau International Airport'',
      city = ''Montreal'', country = ''CA''\<rparr>,
     \<lparr>code = ''SYD'', name = ''Sydney Kingsford Smith Airport'',
      city = ''Sydney'', country = ''AU''\<rparr>,
     \<lparr>code = ''MEL'', name = ''Melbourne Airport'',
      city = ''Melbourne'', country = ''AU''\<rparr>
   ]"

definition findAirportByInput :: "string \<Rightarrow> Airport option" where
  "findAirportByInput input =
     (if input = [] \<or> length (trim input) = 0 then None
      else
        let searchTerm = toLowerCase (trim input) in
        case find (\<lambda>airport. toLowerCase (code airport) = searchTerm) airports of
          Some exactCodeMatch \<Rightarrow> Some exactCodeMatch
        | None \<Rightarrow>
        (case find (\<lambda>airport. toLowerCase (city airport) = searchTerm) airports of
          Some cityMatch \<Rightarrow> Some cityMatch
        | None \<Rightarrow>
        (case find (\<lambda>airport. str_includes (toLowerCase (city airport)) searchTerm \<or>
                                str_includes searchTerm (toLowerCase (city airport))) airports of
          Some partialCityMatch \<Rightarrow> Some partialCityMatch
        | None \<Rightarrow>
        (case find (\<lambda>airport. str_includes (toLowerCase (name airport)) searchTerm) airports of
          Some nameMatch \<Rightarrow> Some nameMatch
        | None \<Rightarrow> None))))"

definition validateAirportCode :: "string \<Rightarrow> bool" where
  "validateAirportCode c = list_ex (\<lambda>airport. toLowerCase (code airport) = toLowerCase c) airports"

definition three_letters :: "string \<Rightarrow> bool" where
  \<comment> \<open>\<open>/^[A-Z]{3}$/i.test(s)\<close>\<close>
  "three_letters s = (length s = 3 \<and> list_all (\<lambda>c. is_upper c \<or> is_lower c) s)"

section \<open>Requests, providers and responses\<close>

text \<open>
  \<open>request.nextUrl.searchParams\<close>: \<open>get\<close> returns the value of a parameter or \<open>null\<close>.
\<close>

type_synonym query_params = "string \<rightharpoonup> string"

definition get_or :: "query_params \<Rightarrow> string \<Rightarrow> string \<Rightarrow> string" where
  \<comment> \<open>\<open>searchParams.get(k) || d\<close>: an absent and an empty parameter both give the default\<close>
  "get_or sp k d = (case sp k of None \<Rightarrow> d | Some v \<Rightarrow> if v = [] then d else v)"

text \<open>
  What the handler reads from the process and the runtime: the environment variable, the
  clock, and the \<open>Date\<close> constructor (\<open>None\<close> is an invalid date, otherwise the time value).
\<close>

record environment =
  SERPAPI_KEY :: "string option"
  date_in_days :: "int \<Rightarrow> string"
  today :: int
  date_value :: "string \<Rightarrow> int option"

definition getDateString :: "environment \<Rightarrow> int \<Rightarrow> string" where
  \<comment> \<open>the ISO date of the current instant moved by \<open>daysFromNow\<close> days\<close>
  "getDateString env daysFromNow = date_in_days env daysFromNow"

definition date_lt :: "int option \<Rightarrow> int option \<Rightarrow> bool" where
  \<comment> \<open>\<open>a < b\<close> on dates: false as soon as one of them is invalid\<close>
  "date_lt a b = (case (a, b) of (Some x, Some y) \<Rightarrow> x < y | _ \<Rightarrow> False)"

definition date_le :: "int option \<Rightarrow> int option \<Rightarrow> bool" where
  "date_le a b = (case (a, b) of (Some x, Some y) \<Rightarrow> x \<le> y | _ \<Rightarrow> False)"

text \<open>The objects of a provider's payload that the handler only passes on are opaque.\<close>

type_synonym json = string

record StockData =
  ticker :: string
  sd_company_name :: "string option"
  sd_price :: string
  change_amount :: string
  sd_change_percentage :: string
  sd_volume :: string

record best_match =
  bm_symbol :: string
  bm_name :: string
  bm_type :: string
  bm_region :: string

record global_quote =
  q_price :: string
  q_change :: string
  q_change_percent :: string
  q_volume :: string

record serp_metadata =
  sm_time_taken_displayed :: "real option"
  sm_processed_time :: "real option"
  sm_total_time_taken :: "real option"
  sm_total_results :: jsval

record serp_information =
  si_total_results :: jsval

text \<open>
  The body of a provider's answer, a JSON object: every key the handler reads, absent
  keys being \<open>None\<close> (\<open>JUndefined\<close> for a value that is a number or a string).
\<close>

record provider_data =
  num_found :: "int option"
  docs :: "json list option"
  top_gainers :: "StockData list option"
  top_losers :: "StockData list option"
  bestMatches :: "best_match list option"
  Global_Quote :: "global_quote option"
  search_metadata_of :: "serp_metadata option"
  search_information :: "serp_information option"
  organic_results :: "json list option"
  images_results :: "json list option"
  video_results :: "json list option"
  news_results :: "json list option"
  shopping_results :: "json list option"
  local_results :: "json list option"
  place_results :: "json option"
  best_flights :: "json list option"
  other_flights :: "json list option"

text \<open>What \<open>axios.get\<close> throws, and any other exception of the \<open>try\<close> block.\<close>

datatype thrown =
    AxiosError (response_status: "int option") (error_code: "string option") (error_message: string)
  | OtherError string
  | NonError

datatype provider = OpenLibrary | AlphaVantage | SerpApi

text \<open>
  One HTTP GET: \<open>OpenLibrary\<close> is \<open>https://openlibrary.org/search.json\<close>, \<open>AlphaVantage\<close>
  is \<open>https://www.alphavantage.co/query\<close>, \<open>SerpApi\<close> is \<open>https://serpapi.com/search\<close>.
\<close>

datatype call = HttpGet (provider_of: provider) (params_of: "string \<rightharpoonup> jsval")

text \<open>
  The outside world answers the \<open>i\<close>-th call of a request: it throws or returns a body.
\<close>

type_synonym world = "nat \<Rightarrow> call \<Rightarrow> thrown + provider_data"

record SearchResult =
  title :: string
  link :: string
  displayed_link :: string
  snippet :: string
  price :: "string option"
  change :: "string option"
  change_percentage :: "string option"
  volume :: "string option"
  sr_ticker :: "string option"
  company_name :: "string option"
  sr_type :: "string option"
  region :: "string option"

text \<open>
  An entry of \<open>results\<close>: a finance entry built by the handler, a provider's object passed
  on as it came, or a provider's object reshaped for books, maps or flights (the reshaping
  copies fields and changes neither the number nor the order of the entries).
\<close>

datatype result = Finance SearchResult | Raw json | Book json | Place json | Flight json

record search_metadata =
  total_results :: jsval
  time_taken_displayed :: real
  search_type :: string
  current_page :: "int option"
  total_pages :: int
  has_next_page :: bool
  has_prev_page :: bool
  results_per_page :: int

datatype body =
    SearchBody (results: "result list") (metadata: search_metadata) (body_search_type: string)
  | ErrorBody (error: string) (details: "string option")

record response =
  status :: nat
  body :: body

definition json_ok :: "body \<Rightarrow> response" where
  \<comment> \<open>\<open>NextResponse.json(b)\<close>\<close>
  "json_ok b = \<lparr>status = 200, body = b\<rparr>"

definition json_error :: "nat \<Rightarrow> string \<Rightarrow> response" where
  \<comment> \<open>\<open>NextResponse.json({ error: msg }, { status: st })\<close>\<close>
  "json_error st msg = \<lparr>status = st, body = ErrorBody msg None\<rparr>"

definition resultsPerPage :: int where
  "resultsPerPage = 20"

section \<open>The catch block and the pagination of both handlers\<close>

definition search_failed :: "string \<Rightarrow> response" where
  "search_failed msg = \<lparr>status = 500, body = ErrorBody ''Search failed'' (Some msg)\<rparr>"

fun catch_block :: "thrown \<Rightarrow> response" where
  "catch_block (AxiosError st cd msg) =
     (if st = Some 401 then json_error 401 ''Invalid SerpAPI key''
      else if st = Some 429 then json_error 429 ''API rate limit exceeded. Please try again later.''
      else if st = Some 400 then json_error 400 ''Invalid search parameters''
      else if cd = Some ''ECONNABORTED'' then json_error 408 ''Search request timed out''
      else search_failed msg)"
| "catch_block (OtherError msg) = search_failed msg"
| "catch_block NonError = search_failed ''Unknown error''"

definition or_empty :: "'a list option \<Rightarrow> 'a list" where
  \<comment> \<open>\<open>xs || []\<close>\<close>
  "or_empty xs = (case xs of None \<Rightarrow> [] | Some ys \<Rightarrow> ys)"

definition length_string :: "'a list \<Rightarrow> string" where
  \<comment> \<open>\<open>xs.length.toString()\<close>\<close>
  "length_string xs = toString (int (length xs))"

definition reported_total :: "provider_data \<Rightarrow> result list \<Rightarrow> jsval" where
  \<comment> \<open>\<open>searchInfo?.total_results || searchMeta?.total_results || results.length.toString()\<close>\<close>
  "reported_total d rs =
     or_else (case search_information d of None \<Rightarrow> JUndefined | Some i \<Rightarrow> si_total_results i)
       (or_else (case search_metadata_of d of None \<Rightarrow> JUndefined | Some m \<Rightarrow> sm_total_results m)
          (JString (length_string rs)))"

definition time_or :: "real option \<Rightarrow> real \<Rightarrow> real" where
  \<comment> \<open>\<open>t || d\<close> on numbers: an absent value and zero give \<open>d\<close>\<close>
  "time_or t d = (case t of None \<Rightarrow> d | Some x \<Rightarrow> if x = 0 then d else x)"

definition timeTaken_of :: "provider_data \<Rightarrow> real" where
  "timeTaken_of d =
     (case search_metadata_of d of
        None \<Rightarrow> 0
      | Some m \<Rightarrow>
          time_or (sm_time_taken_displayed m)
            (time_or (sm_processed_time m) (time_or (sm_total_time_taken m) 0)))"

definition totalResultsNum_of :: "jsval \<Rightarrow> int" where
  \<comment> \<open>\<open>parseInt(String(totalResults).replace(/[,\s]/g, '')) || 0\<close>\<close>
  "totalResultsNum_of totalResults =
     (case parseInt (filter (\<lambda>c. c \<noteq> CHR '','' \<and> \<not> is_space c) (js_String totalResults)) of
        None \<Rightarrow> 0
      | Some n \<Rightarrow> n)"

definition filteredResponse :: "result list \<Rightarrow> jsval \<Rightarrow> real \<Rightarrow> string \<Rightarrow> int option \<Rightarrow> response" where
  \<comment> \<open>the pagination and the structured response after a SerpAPI call\<close>
  "filteredResponse rs totalResults timeTaken searchType page =
     (let totalResultsNum = totalResultsNum_of totalResults;
          totalPages = ceil_div totalResultsNum resultsPerPage;
          hasNextPage = (num_lt page totalPages \<and> num_lt page 10);
          hasPrevPage = num_gt page 1
      in json_ok (SearchBody rs
           \<lparr>total_results = totalResults,
            time_taken_displayed = timeTaken,
            search_type = searchType,
            current_page = page,
            total_pages = min totalPages 10,
            has_next_page = hasNextPage,
            has_prev_page = hasPrevPage,
            results_per_page = resultsPerPage\<rparr>
           searchType))"

definition baseParams :: "string \<Rightarrow> string \<Rightarrow> (string \<rightharpoonup> jsval)" where
  "baseParams query serpApiKey =
     [''engine'' \<mapsto> JString ''google'',
      ''q'' \<mapsto> JString query,
      ''api_key'' \<mapsto> JString serpApiKey,
      ''location'' \<mapsto> JString ''United States'',
      ''gl'' \<mapsto> JString ''us'',
      ''hl'' \<mapsto> JString ''en'']"

definition with_start :: "int option \<Rightarrow> (string \<rightharpoonup> jsval) \<Rightarrow> (string \<rightharpoonup> jsval)" where
  \<comment> \<open>\<open>if (page > 1) searchParams_final.start = startIndex\<close>, \<open>startIndex = (page - 1) * resultsPerPage\<close>\<close>
  "with_start page m =
     (case page of
        None \<Rightarrow> m
      | Some p \<Rightarrow> if p > 1 then m(''start'' \<mapsto> JNumber ((p - 1) * resultsPerPage)) else m)"

section \<open>The books branch (Open Library)\<close>

definition openLibraryParams :: "string \<Rightarrow> int option \<Rightarrow> (string \<rightharpoonup> jsval)" where
  "openLibraryParams query page =
     (let ps = [''q'' \<mapsto> JString query,
                ''limit'' \<mapsto> JNumber resultsPerPage,
                ''fields'' \<mapsto> JString ''key,title,author_name,first_publish_year,publisher,language,number_of_pages_median,isbn,cover_i,ia,subject,edition_count,publish_year,publish_date'']
      in case page of
           None \<Rightarrow> ps
         | Some p \<Rightarrow> if p > 1 then ps(''offset'' \<mapsto> JNumber ((p - 1) * resultsPerPage)) else ps)"

definition books_response :: "provider_data \<Rightarrow> int option \<Rightarrow> response" where
  \<comment> \<open>the results, the pagination and the response built from Open Library's answer\<close>
  "books_response d page =
     (let rs = map Book (or_empty (docs d));
          totalResults = (case num_found d of Some n \<Rightarrow> toString n | None \<Rightarrow> length_string rs);
          timeTaken = 0.5;
          totalResultsNum = (case num_found d of Some n \<Rightarrow> n | None \<Rightarrow> 0);
          totalPages = ceil_div totalResultsNum resultsPerPage;
          hasNextPage = (num_lt page totalPages \<and> num_lt page 10);
          hasPrevPage = num_gt page 1
      in json_ok (SearchBody rs
           \<lparr>total_results = JString totalResults,
            time_taken_displayed = timeTaken,
            search_type = ''books'',
            current_page = page,
            total_pages = min totalPages 10,
            has_next_page = hasNextPage,
            has_prev_page = hasPrevPage,
            results_per_page = resultsPerPage\<rparr>
           ''books''))"

definition books_branch :: "world \<Rightarrow> string \<Rightarrow> int option \<Rightarrow> (thrown + response) \<times> call list" where
  \<comment> \<open>\<open>if (searchType === 'books')\<close>: one request to Open Library, then an early return\<close>
  "books_branch W query page =
     (let c = HttpGet OpenLibrary (openLibraryParams query page)
      in case W 0 c of
           Inl e \<Rightarrow> (Inl e, [c])
         | Inr d \<Rightarrow> (Inr (books_response d page), [c]))"

section \<open>The finance branch (Alpha Vantage)\<close>

text \<open>Each helper catches what \<open>axios.get\<close> throws and returns \<open>null\<close>.\<close>

definition alpha_vantage :: "world \<Rightarrow> nat \<Rightarrow> (string \<rightharpoonup> jsval) \<Rightarrow> provider_data option \<times> call list" where
  "alpha_vantage W i ps =
     (let c = HttpGet AlphaVantage ps
      in (case W i c of Inl e \<Rightarrow> None | Inr d \<Rightarrow> Some d, [c]))"

definition searchSymbol :: "world \<Rightarrow> nat \<Rightarrow> string \<Rightarrow> string \<Rightarrow> provider_data option \<times> call list" where
  "searchSymbol W i query apiKey =
     alpha_vantage W i
       [''function'' \<mapsto> JString ''SYMBOL_SEARCH'', ''keywords'' \<mapsto> JString query,
        ''apikey'' \<mapsto> JString apiKey]"

definition getQuote :: "world \<Rightarrow> nat \<Rightarrow> string \<Rightarrow> string \<Rightarrow> provider_data option \<times> call list" where
  "getQuote W i symbol apiKey =
     alpha_vantage W i
       [''function'' \<mapsto> JString ''GLOBAL_QUOTE'', ''symbol'' \<mapsto> JString symbol,
        ''apikey'' \<mapsto> JString apiKey]"

definition getTopGainersLosers :: "world \<Rightarrow> nat \<Rightarrow> string \<Rightarrow> provider_data option \<times> call list" where
  "getTopGainersLosers W i apiKey =
     alpha_vantage W i
       [''function'' \<mapsto> JString ''TOP_GAINERS_LOSERS'', ''apikey'' \<mapsto> JString apiKey]"

definition market_result :: "string \<Rightarrow> StockData \<Rightarrow> SearchResult" where
  \<comment> \<open>\<open>label\<close> is \<open>Top Gainer\<close> or \<open>Top Loser\<close>\<close>
  "market_result label stock =
     \<lparr>title = ticker stock @ '' - '' @
        (case sd_company_name stock of None \<Rightarrow> ticker stock
         | Some n \<Rightarrow> if n = [] then ticker stock else n),
      link = ''https://finance.yahoo.com/quote/'' @ ticker stock,
      displayed_link = ''finance.yahoo.com'',
      snippet = label @ '': '' @ sd_price stock @ '' ('' @ sd_change_percentage stock @ '')'',
      price = Some (sd_price stock),
      change = Some (change_amount stock),
      change_percentage = Some (sd_change_percentage stock),
      volume = Some (sd_volume stock),
      sr_ticker = Some (ticker stock),
      company_name = None,
      sr_type = None,
      region = None\<rparr>"

definition stock_result :: "best_match \<Rightarrow> global_quote option \<Rightarrow> SearchResult" where
  "stock_result m quote =
     (let symbol = bm_symbol m;
          price' = (case quote of None \<Rightarrow> ''N/A'' | Some q \<Rightarrow> q_price q);
          change' = (case quote of None \<Rightarrow> ''N/A'' | Some q \<Rightarrow> q_change q);
          changePercent = (case quote of None \<Rightarrow> ''N/A'' | Some q \<Rightarrow> q_change_percent q);
          volume' = (case quote of None \<Rightarrow> ''N/A'' | Some q \<Rightarrow> q_volume q)
      in \<lparr>title = symbol @ '' - '' @ bm_name m,
          link = ''https://finance.yahoo.com/quote/'' @ symbol,
          displayed_link = ''finance.yahoo.com'',
          snippet = bm_type m @ '' in '' @ bm_region m @ '' - Price: $'' @ price' @
                    '', Change: '' @ change' @ '' ('' @ changePercent @ '')'',
          price = Some price',
          change = Some change',
          change_percentage = Some changePercent,
          volume = Some volume',
          sr_ticker = Some symbol,
          company_name = Some (bm_name m),
          sr_type = Some (bm_type m),
          region = Some (bm_region m)\<rparr>)"

fun quote_loop :: "world \<Rightarrow> nat \<Rightarrow> string \<Rightarrow> best_match list \<Rightarrow> result list \<times> call list" where
  \<comment> \<open>\<open>for (const match of topMatches)\<close>: one quote request for each match, in order\<close>
  "quote_loop W i apiKey [] = ([], [])"
| "quote_loop W i apiKey (m # ms) =
     (let quoteData = getQuote W i (bm_symbol m) apiKey;
          quote = (case fst quoteData of None \<Rightarrow> None | Some d \<Rightarrow> Global_Quote d);
          rest = quote_loop W (Suc i) apiKey ms
      in (Finance (stock_result m quote) # fst rest, snd quoteData @ snd rest))"

definition market_query :: "string \<Rightarrow> bool" where
  \<comment> \<open>the test for a general market query\<close>
  "market_query query =
     (str_includes (toLowerCase query) ''market'' \<or> str_includes (toLowerCase query) ''gainers'' \<or>
      str_includes (toLowerCase query) ''losers'')"

definition finance_results :: "world \<Rightarrow> string \<Rightarrow> result list \<times> call list" where
  "finance_results W query =
     (let alphaVantageKey = ''EMMEZJF2DJ08Y82M''
      in if market_query query
         then
           (let marketData = getTopGainersLosers W 0 alphaVantageKey
            in (case fst marketData of
                  None \<Rightarrow> []
                | Some d \<Rightarrow>
                    (case top_gainers d of None \<Rightarrow> []
                     | Some gs \<Rightarrow> map (\<lambda>stock. Finance (market_result ''Top Gainer'' stock)) (take 5 gs)) @
                    (case top_losers d of None \<Rightarrow> []
                     | Some ls \<Rightarrow> map (\<lambda>stock. Finance (market_result ''Top Loser'' stock)) (take 5 ls)),
                snd marketData))
         else
           (let symbolData = searchSymbol W 0 query alphaVantageKey
            in case fst symbolData of
                 None \<Rightarrow> ([], snd symbolData)
               | Some d \<Rightarrow>
                   (case bestMatches d of
                      None \<Rightarrow> ([], snd symbolData)
                    | Some ms \<Rightarrow>
                        (let topMatches = take 5 ms;
                             quoted = quote_loop W 1 alphaVantageKey topMatches
                         in (fst quoted, snd symbolData @ snd quoted)))))"

definition finance_branch :: "world \<Rightarrow> string \<Rightarrow> response \<times> call list" where
  "finance_branch W query =
     (let found = finance_results W query;
          rs = fst found
      in (json_ok (SearchBody rs
            \<lparr>total_results = JString (length_string rs),
             time_taken_displayed = 0.5,
             search_type = ''finance'',
             current_page = Some 1,
             total_pages = 1,
             has_next_page = False,
             has_prev_page = False,
             results_per_page = int (length rs)\<rparr>
            ''finance''), snd found))"

section \<open>The SerpAPI request of each category\<close>

definition maps_params :: "query_params \<Rightarrow> int option \<Rightarrow> (string \<rightharpoonup> jsval) \<Rightarrow> (string \<rightharpoonup> jsval)" where
  "maps_params sp page base =
     (let lat = get_or sp ''lat'' ''40.7455096'';
          lng = get_or sp ''lng'' ''-74.0083012'';
          zoom = get_or sp ''zoom'' ''14z'';
          m = base(''engine'' \<mapsto> JString ''google_maps'',
                   ''type'' \<mapsto> JString ''search'',
                   ''ll'' \<mapsto> JString (''@'' @ lat @ '','' @ lng @ '','' @ zoom),
                   ''gl'' \<mapsto> JString ''us'',
                   ''hl'' \<mapsto> JString ''en'');
          m = m(''start'' := None, ''num'' := None, ''tbm'' := None)
      in case page of
           None \<Rightarrow> m
         | Some p \<Rightarrow> if p > 1 then m(''start'' \<mapsto> JNumber ((p - 1) * 20)) else m)"

definition airport_id :: "string \<Rightarrow> string \<Rightarrow> string \<Rightarrow> string \<Rightarrow> string \<Rightarrow> response + string" where
  \<comment> \<open>the validation of one airport input, written twice in the source: for the departure
      (\<open>departure\<close>, \<open>Departure\<close>, \<open>JFK\<close>, \<open>New York\<close>) and for the arrival
      (\<open>arrival\<close>, \<open>Arrival\<close>, \<open>LAX\<close>, \<open>Los Angeles\<close>); \<open>Inl\<close> is the early return\<close>
  "airport_id input which Which exampleCode exampleCity =
     (if input \<noteq> [] then
        (case findAirportByInput input of
           Some airport \<Rightarrow> Inr (code airport)
         | None \<Rightarrow>
             if length input = 3 \<and> three_letters input then Inr (toUpperCase input)
             else Inl (json_error 400
                    (''Invalid '' @ which @ '' airport: '' @ [CHR 0x22] @ input @ [CHR 0x22] @
                     ''. Please use a valid airport code (e.g., '' @ exampleCode @
                     '') or city name (e.g., '' @ exampleCity @ '').'')))
      else Inl (json_error 400 (Which @ '' airport is required for flight search.'')))"

definition flights_params :: "environment \<Rightarrow> query_params \<Rightarrow> (string \<rightharpoonup> jsval) \<Rightarrow> response + (string \<rightharpoonup> jsval)" where
  \<comment> \<open>\<open>case 'flights'\<close>: \<open>Inl\<close> is the early return of a failed validation\<close>
  "flights_params env sp base =
     (let m = base(''engine'' \<mapsto> JString ''google_flights'');
          m = m(''tbm'' := None, ''num'' := None, ''location'' := None, ''q'' := None);
          departureInput = get_or sp ''departure_id'' [];
          arrivalInput = get_or sp ''arrival_id'' [];
          outbound_date = get_or sp ''outbound_date'' (getDateString env 7);
          return_date = get_or sp ''return_date'' (getDateString env 14);
          type = get_or sp ''flight_type'' ''1'';
          travel_class = get_or sp ''travel_class'' ''1'';
          adults = get_or sp ''adults'' ''1''
      in
      case airport_id departureInput ''departure'' ''Departure'' ''JFK'' ''New York'' of
        Inl r \<Rightarrow> Inl r
      | Inr departure_id \<Rightarrow>
      (case airport_id arrivalInput ''arrival'' ''Arrival'' ''LAX'' ''Los Angeles'' of
        Inl r \<Rightarrow> Inl r
      | Inr arrival_id \<Rightarrow>
      (let outboundDate = date_value env outbound_date in
       if date_lt outboundDate (Some (today env)) then
         Inl (json_error 400 ''Departure date cannot be in the past.'')
       else if type = ''1'' \<and> date_le (date_value env return_date) outboundDate then
         Inl (json_error 400 ''Return date must be after departure date.'')
       else
       let adultsNum = parseInt adults in
       if adultsNum = None \<or> num_lt adultsNum 1 \<or> num_gt adultsNum 9 then
         Inl (json_error 400 ''Number of adults must be between 1 and 9.'')
       else
       let m = m(''departure_id'' \<mapsto> JString departure_id,
                 ''arrival_id'' \<mapsto> JString arrival_id,
                 ''outbound_date'' \<mapsto> JString outbound_date,
                 ''type'' \<mapsto> JString type,
                 ''travel_class'' \<mapsto> JString travel_class,
                 ''adults'' \<mapsto> JString adults,
                 ''currency'' \<mapsto> JString ''USD'')
       in Inr (if type = ''1'' then m(''return_date'' \<mapsto> JString return_date) else m))))"

definition searchParams_final :: "environment \<Rightarrow> query_params \<Rightarrow> string \<Rightarrow> string \<Rightarrow> int option \<Rightarrow> string \<Rightarrow> response + (string \<rightharpoonup> jsval)" where
  \<comment> \<open>the first \<open>switch (searchType)\<close>\<close>
  "searchParams_final env sp query searchType page serpApiKey =
     (let base = baseParams query serpApiKey
      in if searchType = ''images'' then
           Inr (with_start page (base(''tbm'' \<mapsto> JString ''isch'', ''num'' \<mapsto> JNumber 30)))
         else if searchType = ''videos'' then
           Inr (with_start page (base(''tbm'' \<mapsto> JString ''vid'', ''num'' \<mapsto> JNumber resultsPerPage)))
         else if searchType = ''news'' then
           Inr (with_start page (base(''tbm'' \<mapsto> JString ''nws'', ''num'' \<mapsto> JNumber resultsPerPage)))
         else if searchType = ''shopping'' then
           Inr (with_start page (base(''tbm'' \<mapsto> JString ''shop'', ''num'' \<mapsto> JNumber resultsPerPage)))
         else if searchType = ''maps'' then
           Inr (maps_params sp page base)
         else if searchType = ''flights'' then
           flights_params env sp base
         else
           Inr (with_start page (base(''num'' \<mapsto> JNumber resultsPerPage))))"

section \<open>The results of a SerpAPI answer\<close>

definition serp_results :: "string \<Rightarrow> provider_data \<Rightarrow> result list \<times> jsval" where
  \<comment> \<open>the second \<open>switch (searchType)\<close>: \<open>results\<close> and \<open>totalResults\<close>\<close>
  "serp_results searchType d =
     (if searchType = ''images'' then
        (let rs = map Raw (or_empty (images_results d)) in (rs, reported_total d rs))
      else if searchType = ''videos'' then
        (let rs = map Raw (or_empty (video_results d)) in (rs, reported_total d rs))
      else if searchType = ''news'' then
        (let rs = map Raw (or_empty (news_results d)) in (rs, reported_total d rs))
      else if searchType = ''shopping'' then
        (let rs = map Raw (or_empty (shopping_results d)) in (rs, reported_total d rs))
      else if searchType = ''maps'' then
        (let rs = or_empty (local_results d);
             rs = (case place_results d of None \<Rightarrow> rs | Some place \<Rightarrow> place # rs);
             rs = map Place rs
         in (rs, reported_total d rs))
      else if searchType = ''flights'' then
        (let rs = or_empty (best_flights d) @ or_empty (other_flights d);
             rs = map Flight rs
         in (rs, JString (length_string rs)))
      else
        (let rs = map Raw (or_empty (organic_results d)) in (rs, reported_total d rs)))"

section \<open>The handler\<close>

definition try_block :: "environment \<Rightarrow> world \<Rightarrow> query_params \<Rightarrow> string \<Rightarrow> string \<Rightarrow> int option \<Rightarrow> (thrown + response) \<times> call list" where
  \<comment> \<open>\<open>Inl\<close> is an exception on its way to the catch block: what a provider's call threw\<close>
  "try_block env W sp query searchType page =
     (if searchType = ''books'' then books_branch W query page
      else if searchType = ''finance'' then
        (let r = finance_branch W query in (Inr (fst r), snd r))
      else
        case SERPAPI_KEY env of
          None \<Rightarrow> (Inr (json_error 500 ''SerpAPI key not configured''), [])
        | Some serpApiKey \<Rightarrow>
            if serpApiKey = [] then (Inr (json_error 500 ''SerpAPI key not configured''), [])
            else
              (case searchParams_final env sp query searchType page serpApiKey of
                 Inl early \<Rightarrow> (Inr early, [])
               | Inr ps \<Rightarrow>
                   (let c = HttpGet SerpApi ps
                    in case W 0 c of
                         Inl e \<Rightarrow> (Inl e, [c])
                       | Inr d \<Rightarrow>
                           (let found = serp_results searchType d
                            in (Inr (filteredResponse (fst found) (snd found) (timeTaken_of d)
                                       searchType page), [c])))))"

definition GET :: "environment \<Rightarrow> world \<Rightarrow> query_params \<Rightarrow> response \<times> call list" where
  \<comment> \<open>the handler with the books, finance, maps and flights branches; the second
      component lists the HTTP requests it sent, in order\<close>
  "GET env W sp =
     (let query = sp ''q'';
          searchType = get_or sp ''type'' ''web'';
          page = parseInt (get_or sp ''page'' ''1'')
      in case query of
           None \<Rightarrow> (json_error 400 ''Query parameter is required'', [])
         | Some q \<Rightarrow>
             if q = [] then (json_error 400 ''Query parameter is required'', [])
             else
               (let r = try_block env W sp q searchType page
                in case fst r of
                     Inl e \<Rightarrow> (catch_block e, snd r)
                   | Inr resp \<Rightarrow> (resp, snd r)))"

section \<open>The handler of \<open>src/app/api/search/route.ts\<close>\<close>

definition route_params :: "string \<Rightarrow> string \<Rightarrow> int option \<Rightarrow> string \<Rightarrow> (string \<rightharpoonup> jsval)" where
  "route_params query searchType page serpApiKey =
     (let base = baseParams query serpApiKey
      in if searchType = ''images'' then
           with_start page (base(''tbm'' \<mapsto> JString ''isch'', ''num'' \<mapsto> JNumber 30))
         else if searchType = ''videos'' then
           with_start page (base(''tbm'' \<mapsto> JString ''vid'', ''num'' \<mapsto> JNumber resultsPerPage))
         else if searchType = ''news'' then
           with_start page (base(''tbm'' \<mapsto> JString ''nws'', ''num'' \<mapsto> JNumber resultsPerPage))
         else if searchType = ''shopping'' then
           with_start page (base(''tbm'' \<mapsto> JString ''shop'', ''num'' \<mapsto> JNumber resultsPerPage))
         else if searchType = ''maps'' then
           (base(''engine'' \<mapsto> JString ''google_maps'', ''type'' \<mapsto> JString ''search''))(''tbm'' := None)
         else if searchType = ''books'' then
           with_start page (base(''num'' \<mapsto> JNumber resultsPerPage, ''q'' \<mapsto> JString (query @ '' books'')))
         else if searchType = ''flights'' then
           with_start page (base(''num'' \<mapsto> JNumber resultsPerPage, ''q'' \<mapsto> JString (query @ '' flights'')))
         else if searchType = ''finance'' then
           with_start page (base(''num'' \<mapsto> JNumber resultsPerPage,
                                 ''q'' \<mapsto> JString (query @ '' stock price finance'')))
         else
           with_start page (base(''num'' \<mapsto> JNumber resultsPerPage)))"

definition route_results :: "string \<Rightarrow> provider_data \<Rightarrow> result list \<times> jsval" where
  "route_results searchType d =
     (let rs = map Raw (or_empty
                 (if searchType = ''images'' then images_results d
                  else if searchType = ''videos'' then video_results d
                  else if searchType = ''news'' then news_results d
                  else if searchType = ''shopping'' then shopping_results d
                  else if searchType = ''maps'' then local_results d
                  else organic_results d))
      in (rs, reported_total d rs))"

definition GET_route :: "environment \<Rightarrow> world \<Rightarrow> query_params \<Rightarrow> response \<times> call list" where
  "GET_route env W sp =
     (let query = sp ''q'';
          searchType = get_or sp ''type'' ''web'';
          page = parseInt (get_or sp ''page'' ''1'')
      in case query of
           None \<Rightarrow> (json_error 400 ''Query parameter is required'', [])
         | Some q \<Rightarrow>
             if q = [] then (json_error 400 ''Query parameter is required'', [])
             else
               (case SERPAPI_KEY env of
                  None \<Rightarrow> (json_error 500 ''SerpAPI key not configured'', [])
                | Some serpApiKey \<Rightarrow>
                    if serpApiKey = [] then (json_error 500 ''SerpAPI key not configured'', [])
                    else
                      (let c = HttpGet SerpApi (route_params q searchType page serpApiKey)
                       in case W 0 c of
                            Inl e \<Rightarrow> (catch_block e, [c])
                          | Inr d \<Rightarrow>
                              (let found = route_results searchType d
                               in (filteredResponse (fst found) (snd found) (timeTaken_of d)
                                     searchType page, [c])))))"

section \<open>Notions used to state the properties\<close>

definition failed :: "response \<Rightarrow> bool" where
  \<comment> \<open>the JSON body carries an \<open>error\<close> field\<close>
  "failed r = (case body r of ErrorBody msg det \<Rightarrow> True | SearchBody rs m t \<Rightarrow> False)"

definition succeeded :: "response \<Rightarrow> bool" where
  \<comment> \<open>status 200 with a body of \<open>results\<close>, \<open>search_metadata\<close> and \<open>search_type\<close>\<close>
  "succeeded r = (case body r of ErrorBody msg det \<Rightarrow> False | SearchBody rs m t \<Rightarrow> status r = 200)"

definition requested_type :: "query_params \<Rightarrow> string" where
  \<comment> \<open>\<open>searchParams.get('type') || 'web'\<close>\<close>
  "requested_type sp = get_or sp ''type'' ''web''"

definition requested_page :: "query_params \<Rightarrow> int option" where
  \<comment> \<open>\<open>parseInt(searchParams.get('page') || '1')\<close>\<close>
  "requested_page sp = parseInt (get_or sp ''page'' ''1'')"

definition has_query :: "query_params \<Rightarrow> bool" where
  \<comment> \<open>the parameter \<open>q\<close> is present and not empty\<close>
  "has_query sp = (case sp ''q'' of None \<Rightarrow> False | Some q \<Rightarrow> q \<noteq> [])"

definition key_configured :: "environment \<Rightarrow> bool" where
  \<comment> \<open>\<open>process.env.SERPAPI_KEY\<close> is set and not empty\<close>
  "key_configured env = (case SERPAPI_KEY env of None \<Rightarrow> False | Some k \<Rightarrow> k \<noteq> [])"

definition pagination_equations :: "search_metadata \<Rightarrow> int option \<Rightarrow> bool" where
  \<comment> \<open>the pagination equations as the specification words them, for the requested page and
      the number read from \<open>total_results\<close>\<close>
  "pagination_equations m page =
     (let n = totalResultsNum_of (total_results m);
          pages = \<lceil>real_of_int n / 20\<rceil>
      in total_pages m = min pages 10 \<and>
         has_next_page m = (case page of None \<Rightarrow> False | Some p \<Rightarrow> p < pages \<and> p < 10) \<and>
         has_prev_page m = (case page of None \<Rightarrow> False | Some p \<Rightarrow> 1 < p) \<and>
         results_per_page m = 20)"

definition status_for_failure :: "thrown \<Rightarrow> nat" where
  \<comment> \<open>the status the specification assigns to a failure of the provider: 401, 429 and 400
      are passed on, a timeout (\<open>ECONNABORTED\<close>) is 408, anything else is 500\<close>
  "status_for_failure e =
     (case e of
        AxiosError st cd msg \<Rightarrow>
          if st = Some 401 then 401
          else if st = Some 429 then 429
          else if st = Some 400 then 400
          else if cd = Some ''ECONNABORTED'' then 408
          else 500
      | OtherError msg \<Rightarrow> 500
      | NonError \<Rightarrow> 500)"

definition category_provider :: "string \<Rightarrow> provider" where
  \<comment> \<open>the provider that serves a category\<close>
  "category_provider searchType =
     (if searchType = ''books'' then OpenLibrary
      else if searchType = ''finance'' then AlphaVantage
      else SerpApi)"

definition iata_code :: "string \<Rightarrow> bool" where
  \<comment> \<open>three upper-case letters\<close>
  "iata_code s = (length s = 3 \<and> list_all is_upper s)"

definition departureInput :: "query_params \<Rightarrow> string" where
  \<comment> \<open>\<open>searchParams.get('departure_id') || ''\<close>\<close>
  "departureInput sp = get_or sp ''departure_id'' []"

definition arrivalInput :: "query_params \<Rightarrow> string" where
  \<comment> \<open>\<open>searchParams.get('arrival_id') || ''\<close>\<close>
  "arrivalInput sp = get_or sp ''arrival_id'' []"

definition adultsInput :: "query_params \<Rightarrow> string" where
  \<comment> \<open>\<open>searchParams.get('adults') || '1'\<close>\<close>
  "adultsInput sp = get_or sp ''adults'' ''1''"

definition resolved_code :: "string \<Rightarrow> string" where
  \<comment> \<open>what an accepted airport input stands for: the code of the airport the lookup finds,
      or, failing the lookup, the input in upper case\<close>
  "resolved_code input =
     (case findAirportByInput input of Some airport \<Rightarrow> code airport | None \<Rightarrow> toUpperCase input)"

section \<open>Sample environments, requests and provider answers\<close>

definition sample_env :: environment where
  "sample_env =
     \<lparr>SERPAPI_KEY = Some ''secret'',
      date_in_days = (\<lambda>n. if n = 7 then ''2030-01-08'' else ''2030-01-15''),
      today = 1893456000000,
      date_value = (\<lambda>s. if s = ''2030-01-08'' then Some 1894060800000
                         else if s = ''2030-01-15'' then Some 1894665600000
                         else if s = ''2030-01-01'' then Some 1893456000000
                         else None)\<rparr>"

definition no_key_env :: environment where
  "no_key_env = sample_env\<lparr>SERPAPI_KEY := None\<rparr>"

definition empty_data :: provider_data where
  "empty_data =
     \<lparr>num_found = None, docs = None, top_gainers = None, top_losers = None,
      bestMatches = None, Global_Quote = None, search_metadata_of = None,
      search_information = None, organic_results = None, images_results = None,
      video_results = None, news_results = None, shopping_results = None,
      local_results = None, place_results = None, best_flights = None,
      other_flights = None\<rparr>"

definition sample_data :: provider_data where
  \<comment> \<open>an answer with every key the branches read\<close>
  "sample_data =
     empty_data
       \<lparr>num_found := Some 45,
        docs := Some [''book one'', ''book two''],
        bestMatches := Some
          [\<lparr>bm_symbol = ''AAPL'', bm_name = ''Apple Inc'', bm_type = ''Equity'', bm_region = ''United States''\<rparr>,
           \<lparr>bm_symbol = ''APLE'', bm_name = ''Apple Hospitality'', bm_type = ''Equity'', bm_region = ''United States''\<rparr>],
        Global_Quote := Some \<lparr>q_price = ''190.10'', q_change = ''1.20'', q_change_percent = ''0.63%'', q_volume = ''1000''\<rparr>,
        search_information := Some \<lparr>si_total_results = JNumber 12345\<rparr>,
        organic_results := Some [''first'', ''second'', ''third'']\<rparr>"

definition sample_world :: world where
  "sample_world = (\<lambda>i c. Inr sample_data)"

definition failing_world :: "thrown \<Rightarrow> world" where
  "failing_world e = (\<lambda>i c. Inl e)"

definition rate_limited :: thrown where
  "rate_limited = AxiosError (Some 429) (Some ''ERR_BAD_REQUEST'') ''Request failed with status code 429''"

definition timed_out :: thrown where
  "timed_out = AxiosError None (Some ''ECONNABORTED'') ''timeout of 20000ms exceeded''"

section \<open>Decimal text of a number and \<open>parseInt\<close>\<close>

lemma code_unit_digit_char: "d < 10 \<Longrightarrow> code_unit (digit_char d) = 48 + d"
  by (simp add: code_unit_def digit_char_def)

lemma is_digit_digit_char: "d < 10 \<Longrightarrow> is_digit (digit_char d)"
  by (simp add: is_digit_def code_unit_digit_char)

lemma digit_value_digit_char: "d < 10 \<Longrightarrow> digit_value 10 (digit_char d) = Some d"
  by (simp add: digit_value_def hex_value_def is_digit_digit_char code_unit_digit_char)

lemma digits_all_digit: "c \<in> set (digits n) \<Longrightarrow> \<exists>d<10. c = digit_char d"
proof (induction n rule: digits.induct)
  case (1 n)
  show ?case
  proof (cases "n < 10")
    case True
    with "1.prems" show ?thesis by (auto simp: digits.simps [of n])
  next
    case False
    with "1.prems" have "c \<in> set (digits (n div 10)) \<or> c = digit_char (n mod 10)"
      by (auto simp: digits.simps [of n])
    then show ?thesis
    proof
      assume "c \<in> set (digits (n div 10))"
      with False "1.IH" show ?thesis by blast
    next
      assume "c = digit_char (n mod 10)"
      then show ?thesis by (intro exI [of _ "n mod 10"]) simp
    qed
  qed
qed

lemma digits_nonempty: "digits n \<noteq> []"
  by (subst digits.simps) simp

lemma number_of_digits_snoc:
  "number_of_digits r (ds @ [c]) = number_of_digits r ds * r + the (digit_value r c)"
  by (simp add: number_of_digits_def)

lemma number_of_digits_digits: "number_of_digits 10 (digits n) = n"
proof (induction n rule: digits.induct)
  case (1 n)
  show ?case
  proof (cases "n < 10")
    case True
    then show ?thesis
      by (simp add: digits.simps [of n] number_of_digits_def digit_value_digit_char)
  next
    case False
    with "1.IH" have "number_of_digits 10 (digits (n div 10)) = n div 10" by simp
    with False show ?thesis
      by (simp add: digits.simps [of n] number_of_digits_snoc digit_value_digit_char)
  qed
qed

lemma takeWhile_digits:
  "takeWhile (\<lambda>c. digit_value 10 c \<noteq> None) (digits n) = digits n"
proof -
  have "\<forall>c \<in> set (digits n). digit_value 10 c \<noteq> None"
    using digits_all_digit digit_value_digit_char by fastforce
  then show ?thesis by simp
qed

lemma parse_digits_digits: "parse_digits 10 (digits n) = Some (int n)"
  unfolding parse_digits_def takeWhile_digits
  by (simp add: digits_nonempty number_of_digits_digits)

lemma digit_char_plain:
  assumes "d < 10"
  shows "digit_char d \<noteq> CHR ''x''" "digit_char d \<noteq> CHR ''X''" "digit_char d \<noteq> CHR ''-''"
    "digit_char d \<noteq> CHR ''+''" "digit_char d \<noteq> CHR '',''" "\<not> is_space (digit_char d)"
proof -
  have u: "code_unit (digit_char d) = 48 + d" using assms by (rule code_unit_digit_char)
  show "digit_char d \<noteq> CHR ''x''" using u assms by (auto simp: code_unit_def)
  show "digit_char d \<noteq> CHR ''X''" using u assms by (auto simp: code_unit_def)
  show "digit_char d \<noteq> CHR ''-''" using u assms by (auto simp: code_unit_def)
  show "digit_char d \<noteq> CHR ''+''" using u assms by (auto simp: code_unit_def)
  show "digit_char d \<noteq> CHR '',''" using u assms by (auto simp: code_unit_def)
  show "\<not> is_space (digit_char d)" using u assms by (auto simp: is_space_def)
qed

lemma digits_no_hex_prefix: "\<not> startsWith (digits n) ''0x''" "\<not> startsWith (digits n) ''0X''"
proof -
  have x: "CHR ''x'' \<notin> set (digits n)" "CHR ''X'' \<notin> set (digits n)"
    using digits_all_digit [of _ n] digit_char_plain(1,2) by metis+
  show "\<not> startsWith (digits n) ''0x''"
  proof
    assume "startsWith (digits n) ''0x''"
    then have "CHR ''x'' \<in> set (take (length ''0x'') (digits n))"
      unfolding startsWith_def by simp
    then show False using x(1) by (meson in_set_takeD)
  qed
  show "\<not> startsWith (digits n) ''0X''"
  proof
    assume "startsWith (digits n) ''0X''"
    then have "CHR ''X'' \<in> set (take (length ''0X'') (digits n))"
      unfolding startsWith_def by simp
    then show False using x(2) by (meson in_set_takeD)
  qed
qed

lemma parse_unsigned_digits: "parse_unsigned (digits n) = Some (int n)"
  by (simp add: parse_unsigned_def digits_no_hex_prefix parse_digits_digits)

lemma parseInt_digits: "parseInt (digits n) = Some (int n)"
proof -
  obtain c cs where cs: "digits n = c # cs"
    using digits_nonempty by (cases "digits n") auto
  then obtain d where d: "d < 10" "c = digit_char d"
    using digits_all_digit [of c n] by auto
  have "dropWhile is_space (digits n) = c # cs"
    using cs d digit_char_plain(6) by simp
  moreover have "c \<noteq> CHR ''-''" "c \<noteq> CHR ''+''"
    using d digit_char_plain by auto
  ultimately show ?thesis
    using parse_unsigned_digits [of n] cs by (simp add: parseInt_def)
qed

lemma parseInt_minus_digits: "parseInt (CHR ''-'' # digits n) = Some (- int n)"
  using parse_unsigned_digits [of n] by (simp add: parseInt_def is_space_def code_unit_def)

lemma parseInt_toString: "safe_integer n \<Longrightarrow> parseInt (toString n) = Some n"
  by (simp add: toString_def parseInt_digits parseInt_minus_digits)

lemma filter_digits:
  "filter (\<lambda>c. c \<noteq> CHR '','' \<and> \<not> is_space c) (digits n) = digits n"
  using digits_all_digit digit_char_plain by (fastforce simp: filter_id_conv)

lemma filter_toString:
  "filter (\<lambda>c. c \<noteq> CHR '','' \<and> \<not> is_space c) (toString n) = toString n"
proof -
  have "\<not> is_space CHR ''-''" by (simp add: is_space_def code_unit_def)
  then show ?thesis by (simp add: toString_def filter_digits)
qed

lemma totalResultsNum_of_toString:
  "safe_integer n \<Longrightarrow> totalResultsNum_of (JString (toString n)) = n"
  by (simp add: totalResultsNum_of_def filter_toString parseInt_toString)

lemma totalResultsNum_of_number: "safe_integer n \<Longrightarrow> totalResultsNum_of (JNumber n) = n"
  by (simp add: totalResultsNum_of_def filter_toString parseInt_toString)

lemma safe_integer_small: "safe_integer 2" "safe_integer 3" "safe_integer 12345"
  by (simp_all add: safe_integer_def)

lemma ceil_div_ceiling: "ceil_div n 20 = \<lceil>real_of_int n / 20\<rceil>"
proof -
  have "\<lfloor>real_of_int (- n) / real_of_int 20\<rfloor> = (- n) div 20"
    by (rule floor_divide_of_int_eq)
  then show ?thesis by (simp add: ceil_div_def ceiling_def)
qed

section \<open>The catch block\<close>

lemma failed_json_error: "failed (json_error st msg)"
  by (simp add: failed_def json_error_def)

lemma status_json_error: "status (json_error st msg) = st"
  by (simp add: json_error_def)

lemma failed_search_failed: "failed (search_failed msg)" "status (search_failed msg) = 500"
  by (simp_all add: failed_def search_failed_def)

lemma failed_catch_block: "failed (catch_block e)"
  by (cases e) (simp_all add: failed_json_error failed_search_failed)

lemma status_catch_block: "status (catch_block e) \<in> {400, 401, 408, 429, 500}"
  by (cases e) (simp_all add: status_json_error failed_search_failed)

lemma succeeded_filteredResponse: "succeeded (filteredResponse rs tot tm ty pg)"
  by (simp add: filteredResponse_def succeeded_def json_ok_def Let_def)

lemma not_failed_filteredResponse: "\<not> failed (filteredResponse rs tot tm ty pg)"
  by (simp add: filteredResponse_def failed_def json_ok_def Let_def)

section \<open>The finance branch\<close>

lemma alpha_vantage_calls: "snd (alpha_vantage W i ps) = [HttpGet AlphaVantage ps]"
  by (simp add: alpha_vantage_def Let_def)

lemma quote_loop_lengths:
  "length (fst (quote_loop W i k ms)) = length ms \<and> length (snd (quote_loop W i k ms)) = length ms"
  by (induction ms arbitrary: i) (simp_all add: Let_def getQuote_def alpha_vantage_calls)

lemma quote_loop_provider:
  "c \<in> set (snd (quote_loop W i k ms)) \<Longrightarrow> provider_of c = AlphaVantage"
  by (induction ms arbitrary: i) (auto simp: Let_def getQuote_def alpha_vantage_calls)

lemma quote_loop_apikey:
  "c \<in> set (snd (quote_loop W i k ms)) \<Longrightarrow> params_of c ''apikey'' = Some (JString k)"
  by (induction ms arbitrary: i) (auto simp: Let_def getQuote_def alpha_vantage_calls)

lemma finance_results_provider:
  "c \<in> set (snd (finance_results W q)) \<Longrightarrow> provider_of c = AlphaVantage"
  by (auto simp: finance_results_def Let_def searchSymbol_def getTopGainersLosers_def
      alpha_vantage_calls quote_loop_provider split: if_splits option.splits)

lemma finance_results_apikey:
  "c \<in> set (snd (finance_results W q)) \<Longrightarrow> params_of c ''apikey'' = Some (JString ''EMMEZJF2DJ08Y82M'')"
  by (auto simp: finance_results_def Let_def searchSymbol_def getTopGainersLosers_def
      alpha_vantage_calls quote_loop_apikey split: if_splits option.splits)

lemma finance_results_count:
  "1 \<le> length (snd (finance_results W q)) \<and> length (snd (finance_results W q)) \<le> 6"
  by (auto simp: finance_results_def Let_def searchSymbol_def getTopGainersLosers_def
      alpha_vantage_calls quote_loop_lengths split: if_splits option.splits)

lemma finance_results_symbol_search:
  assumes "\<not> market_query q"
    and "W 0 (HttpGet AlphaVantage [''function'' \<mapsto> JString ''SYMBOL_SEARCH'', ''keywords'' \<mapsto> JString q,
        ''apikey'' \<mapsto> JString ''EMMEZJF2DJ08Y82M'']) = Inr d"
    and "bestMatches d = Some ms"
  shows "length (snd (finance_results W q)) = 1 + min 5 (length ms)"
  using assms
  by (simp add: finance_results_def Let_def searchSymbol_def alpha_vantage_def
      quote_loop_lengths min_def)

lemma finance_results_market:
  assumes "market_query q"
  shows "length (snd (finance_results W q)) = 1"
  using assms
  by (simp add: finance_results_def Let_def getTopGainersLosers_def alpha_vantage_calls)

lemma succeeded_finance_branch: "succeeded (fst (finance_branch W q))"
  by (simp add: finance_branch_def succeeded_def json_ok_def Let_def)

lemma snd_finance_branch: "snd (finance_branch W q) = snd (finance_results W q)"
  by (simp add: finance_branch_def Let_def)

section \<open>The books branch\<close>

lemma succeeded_books_response: "succeeded (books_response d p)"
  by (simp add: books_response_def succeeded_def json_ok_def Let_def)

lemma succeeded_not_failed: "succeeded r \<Longrightarrow> \<not> failed r"
  by (simp add: succeeded_def failed_def split: body.splits)

lemma snd_books_branch: "snd (books_branch W q p) = [HttpGet OpenLibrary (openLibraryParams q p)]"
  by (simp add: books_branch_def Let_def split: sum.splits)

lemma fst_books_branch:
  "fst (books_branch W q p) =
     (case W 0 (HttpGet OpenLibrary (openLibraryParams q p)) of
        Inl e \<Rightarrow> Inl e | Inr d \<Rightarrow> Inr (books_response d p))"
  by (simp add: books_branch_def Let_def split: sum.splits)

section \<open>The airport table\<close>

lemma airports_iata: "list_all (\<lambda>a. iata_code (code a)) airports"
  unfolding airports_def iata_code_def
  by (simp add: is_upper_def code_unit_def)

lemma find_in_set: "find P xs = Some x \<Longrightarrow> x \<in> set xs"
  by (auto simp: find_Some_iff)

lemma findAirportByInput_in_table: "findAirportByInput s = Some a \<Longrightarrow> a \<in> set airports"
  by (auto simp: findAirportByInput_def Let_def split: if_splits option.splits dest: find_in_set)

lemma findAirportByInput_iata: "findAirportByInput s = Some a \<Longrightarrow> iata_code (code a)"
  using findAirportByInput_in_table airports_iata by (auto simp: list_all_iff)

lemma code_unit_char_of: "n < 256 \<Longrightarrow> code_unit (char_of n) = n"
  by (simp add: code_unit_def)

lemma is_upper_to_upper_char: "is_upper c \<or> is_lower c \<Longrightarrow> is_upper (to_upper_char c)"
  by (auto simp: to_upper_char_def is_upper_def is_lower_def code_unit_char_of)

lemma three_letters_iata: "three_letters s \<Longrightarrow> iata_code (toUpperCase s)"
  by (auto simp: three_letters_def iata_code_def toUpperCase_def list_all_iff is_upper_to_upper_char)

section \<open>The validation of a flights request\<close>

lemma airport_id_Inl: "airport_id i w W' c t = Inl r \<Longrightarrow> status r = 400 \<and> failed r"
  by (auto simp: airport_id_def status_json_error failed_json_error split: if_splits option.splits)

lemma airport_id_Inr:
  "airport_id i w W' c t = Inr a \<Longrightarrow>
     i \<noteq> [] \<and> iata_code a \<and>
     a = (case findAirportByInput i of Some ap \<Rightarrow> code ap | None \<Rightarrow> toUpperCase i) \<and>
     (findAirportByInput i = None \<longrightarrow> three_letters i)"
  by (auto simp: airport_id_def findAirportByInput_iata three_letters_iata
      split: if_splits option.splits)

lemma airport_id_missing:
  "airport_id [] w W' c t = Inl (json_error 400 (W' @ '' airport is required for flight search.''))"
  by (simp add: airport_id_def)

lemma airport_id_invalid:
  "i \<noteq> [] \<Longrightarrow> findAirportByInput i = None \<Longrightarrow> \<not> three_letters i \<Longrightarrow>
     \<exists>r. airport_id i w W' c t = Inl r"
  by (simp add: airport_id_def)

lemma flights_params_Inl:
  "flights_params env sp base = Inl r \<Longrightarrow> status r = 400 \<and> failed r"
  unfolding flights_params_def Let_def
  by (auto simp: status_json_error failed_json_error dest: airport_id_Inl
      split: if_splits sum.splits)

lemma flights_params_departure:
  "airport_id (get_or sp ''departure_id'' []) ''departure'' ''Departure'' ''JFK'' ''New York'' = Inl r \<Longrightarrow>
     flights_params env sp base = Inl r"
  by (simp add: flights_params_def Let_def)

lemma flights_params_arrival:
  "airport_id (get_or sp ''departure_id'' []) ''departure'' ''Departure'' ''JFK'' ''New York'' = Inr d \<Longrightarrow>
   airport_id (get_or sp ''arrival_id'' []) ''arrival'' ''Arrival'' ''LAX'' ''Los Angeles'' = Inl r \<Longrightarrow>
     flights_params env sp base = Inl r"
  by (simp add: flights_params_def Let_def)

lemma flights_params_return_date:
  "get_or sp ''flight_type'' ''1'' = ''1'' \<Longrightarrow>
   date_le (date_value env (get_or sp ''return_date'' (getDateString env 14)))
           (date_value env (get_or sp ''outbound_date'' (getDateString env 7))) \<Longrightarrow>
     \<exists>r. flights_params env sp base = Inl r"
  by (simp add: flights_params_def Let_def split: sum.splits)

lemma flights_params_adults:
  "parseInt (get_or sp ''adults'' ''1'') = None \<or> num_lt (parseInt (get_or sp ''adults'' ''1'')) 1 \<or>
   num_gt (parseInt (get_or sp ''adults'' ''1'')) 9 \<Longrightarrow>
     \<exists>r. flights_params env sp base = Inl r"
  by (auto simp add: flights_params_def Let_def split: sum.splits)

lemma flights_params_Inr:
  assumes "flights_params env sp base = Inr ps"
  shows "\<exists>d a. airport_id (get_or sp ''departure_id'' []) ''departure'' ''Departure'' ''JFK'' ''New York'' = Inr d \<and>
     airport_id (get_or sp ''arrival_id'' []) ''arrival'' ''Arrival'' ''LAX'' ''Los Angeles'' = Inr a \<and>
     ps ''departure_id'' = Some (JString d) \<and> ps ''arrival_id'' = Some (JString a) \<and>
     ps ''adults'' = Some (JString (get_or sp ''adults'' ''1'')) \<and>
     ps ''api_key'' = base ''api_key''"
  using assms unfolding flights_params_def Let_def
  by (auto split: if_splits sum.splits)

lemma flights_params_Inr_checks:
  assumes "flights_params env sp base = Inr ps"
  shows "\<not> (get_or sp ''flight_type'' ''1'' = ''1'' \<and>
            date_le (date_value env (get_or sp ''return_date'' (getDateString env 14)))
              (date_value env (get_or sp ''outbound_date'' (getDateString env 7))))"
    and "\<exists>n. parseInt (get_or sp ''adults'' ''1'') = Some n \<and> 1 \<le> n \<and> n \<le> 9"
  using assms unfolding flights_params_def Let_def
  by (auto simp: num_lt_def num_gt_def split: if_splits sum.splits option.splits)

lemma get_or_upd: "k \<noteq> k' \<Longrightarrow> get_or (sp(k := x)) k' d = get_or sp k' d"
  by (simp add: get_or_def)

lemma flights_params_one_way:
  "get_or sp ''flight_type'' ''1'' \<noteq> ''1'' \<Longrightarrow>
     flights_params env (sp(''return_date'' := x)) base = flights_params env sp base"
  by (simp add: flights_params_def Let_def get_or_upd cong: sum.case_cong if_cong)

section \<open>The paths of the handler\<close>

lemma has_query_iff: "has_query sp \<longleftrightarrow> (\<exists>q. sp ''q'' = Some q \<and> q \<noteq> [])"
  by (simp add: has_query_def split: option.splits)

lemma GET_no_query:
  "\<not> has_query sp \<Longrightarrow> GET env W sp = (json_error 400 ''Query parameter is required'', [])"
  by (simp add: GET_def has_query_def Let_def split: option.splits)

lemma GET_try_block:
  assumes "sp ''q'' = Some q" "q \<noteq> []"
  shows "GET env W sp =
    (case fst (try_block env W sp q (requested_type sp) (requested_page sp)) of
       Inl e \<Rightarrow> catch_block e | Inr r \<Rightarrow> r,
     snd (try_block env W sp q (requested_type sp) (requested_page sp)))"
  using assms
  by (simp add: GET_def Let_def requested_type_def requested_page_def split: sum.splits)

lemma GET_books:
  assumes "sp ''q'' = Some q" "q \<noteq> []" "requested_type sp = ''books''"
  shows "GET env W sp =
    (case W 0 (HttpGet OpenLibrary (openLibraryParams q (requested_page sp))) of
       Inl e \<Rightarrow> catch_block e
     | Inr d \<Rightarrow> books_response d (requested_page sp),
     [HttpGet OpenLibrary (openLibraryParams q (requested_page sp))])"
  using assms
  by (simp add: GET_try_block try_block_def snd_books_branch fst_books_branch split: sum.splits)

lemma GET_finance:
  assumes "sp ''q'' = Some q" "q \<noteq> []" "requested_type sp = ''finance''"
  shows "GET env W sp = finance_branch W q"
  using assms by (simp add: GET_try_block try_block_def Let_def)

lemma GET_no_key:
  assumes "sp ''q'' = Some q" "q \<noteq> []" "requested_type sp \<noteq> ''books''"
    "requested_type sp \<noteq> ''finance''" "\<not> key_configured env"
  shows "GET env W sp = (json_error 500 ''SerpAPI key not configured'', [])"
  using assms by (simp add: GET_try_block try_block_def key_configured_def split: option.splits)

lemma GET_early:
  assumes "sp ''q'' = Some q" "q \<noteq> []" "requested_type sp \<noteq> ''books''"
    "requested_type sp \<noteq> ''finance''" "SERPAPI_KEY env = Some k" "k \<noteq> []"
    "searchParams_final env sp q (requested_type sp) (requested_page sp) k = Inl r"
  shows "GET env W sp = (r, [])"
  using assms by (simp add: GET_try_block try_block_def)

lemma GET_call:
  assumes "sp ''q'' = Some q" "q \<noteq> []" "requested_type sp \<noteq> ''books''"
    "requested_type sp \<noteq> ''finance''" "SERPAPI_KEY env = Some k" "k \<noteq> []"
    "searchParams_final env sp q (requested_type sp) (requested_page sp) k = Inr ps"
  shows "GET env W sp =
    (case W 0 (HttpGet SerpApi ps) of
       Inl e \<Rightarrow> catch_block e
     | Inr d \<Rightarrow> filteredResponse (fst (serp_results (requested_type sp) d))
                 (snd (serp_results (requested_type sp) d)) (timeTaken_of d)
                 (requested_type sp) (requested_page sp),
     [HttpGet SerpApi ps])"
  using assms by (simp add: GET_try_block try_block_def Let_def split: sum.splits)

lemma searchParams_final_Inl:
  "searchParams_final env sp q t p k = Inl r \<Longrightarrow>
     t = ''flights'' \<and> flights_params env sp (baseParams q k) = Inl r"
  by (simp add: searchParams_final_def Let_def split: if_splits)

lemma searchParams_final_flights:
  "searchParams_final env sp q ''flights'' p k = flights_params env sp (baseParams q k)"
  by (simp add: searchParams_final_def Let_def)

lemma with_start_other: "key \<noteq> ''start'' \<Longrightarrow> with_start p m key = m key"
  by (simp add: with_start_def split: option.splits)

lemma searchParams_final_api_key:
  "searchParams_final env sp q t p k = Inr ps \<Longrightarrow> ps ''api_key'' = Some (JString k)"
  by (auto simp: searchParams_final_def Let_def with_start_other maps_params_def baseParams_def
      split: if_splits option.splits dest!: flights_params_Inr)

lemma GET_route_no_query:
  "\<not> has_query sp \<Longrightarrow> GET_route env W sp = (json_error 400 ''Query parameter is required'', [])"
  by (simp add: GET_route_def has_query_def Let_def split: option.splits)

lemma GET_route_no_key:
  assumes "sp ''q'' = Some q" "q \<noteq> []" "\<not> key_configured env"
  shows "GET_route env W sp = (json_error 500 ''SerpAPI key not configured'', [])"
  using assms by (simp add: GET_route_def key_configured_def Let_def split: option.splits)

lemma GET_route_call:
  assumes "sp ''q'' = Some q" "q \<noteq> []" "SERPAPI_KEY env = Some k" "k \<noteq> []"
  shows "GET_route env W sp =
    (case W 0 (HttpGet SerpApi (route_params q (requested_type sp) (requested_page sp) k)) of
       Inl e \<Rightarrow> catch_block e
     | Inr d \<Rightarrow> filteredResponse (fst (route_results (requested_type sp) d))
                 (snd (route_results (requested_type sp) d)) (timeTaken_of d)
                 (requested_type sp) (requested_page sp),
     [HttpGet SerpApi (route_params q (requested_type sp) (requested_page sp) k)])"
  using assms
  by (simp add: GET_route_def Let_def requested_type_def requested_page_def split: sum.splits)

lemma key_configured_iff: "key_configured env \<longleftrightarrow> (\<exists>k. SERPAPI_KEY env = Some k \<and> k \<noteq> [])"
  by (simp add: key_configured_def split: option.splits)

section \<open>Rejection of a request without a query\<close>

text \<open>
  C4. When the parameter \<open>q\<close> is missing or empty, both handlers answer with status 400 and
  a body that carries an \<open>error\<close> field, and send no request to any provider.
\<close>

theorem missing_query_is_rejected:
  "sp ''q'' = None \<or> sp ''q'' = Some [] \<Longrightarrow>
     status (fst (GET env W sp)) = 400 \<and>
     body (fst (GET env W sp)) = ErrorBody ''Query parameter is required'' None \<and>
     snd (GET env W sp) = [] \<and>
     status (fst (GET_route env W sp)) = 400 \<and>
     body (fst (GET_route env W sp)) = ErrorBody ''Query parameter is required'' None \<and>
     snd (GET_route env W sp) = []"
proof -
  assume "sp ''q'' = None \<or> sp ''q'' = Some []"
  then have "\<not> has_query sp" by (auto simp: has_query_def)
  then show ?thesis
    by (simp add: GET_no_query GET_route_no_query json_error_def)
qed

theorem missing_query_is_rejected_witness:
  "status (fst (GET sample_env sample_world [''type'' \<mapsto> ''images''])) = 400 \<and>
   body (fst (GET sample_env sample_world [''type'' \<mapsto> ''images''])) =
     ErrorBody ''Query parameter is required'' None \<and>
   snd (GET sample_env sample_world [''type'' \<mapsto> ''images'']) = [] \<and>
   status (fst (GET_route sample_env sample_world [''type'' \<mapsto> ''images''])) = 400 \<and>
   body (fst (GET_route sample_env sample_world [''type'' \<mapsto> ''images''])) =
     ErrorBody ''Query parameter is required'' None \<and>
   snd (GET_route sample_env sample_world [''type'' \<mapsto> ''images'']) = []"
  using missing_query_is_rejected [of "[''type'' \<mapsto> ''images'']" sample_env sample_world]
  by simp

section \<open>The metadata of a finance answer\<close>

text \<open>
  C9. A finance request with a query always succeeds, and whatever the requested page and
  the number of results, its metadata has \<open>current_page\<close> 1, \<open>total_pages\<close> 1, no next and no
  previous page, and \<open>results_per_page\<close> equal to the number of results returned.
\<close>

theorem finance_metadata_is_fixed:
  assumes "sp ''q'' = Some q" and "q \<noteq> []" and "requested_type sp = ''finance''"
  shows "\<exists>rs m. fst (GET env W sp) = \<lparr>status = 200, body = SearchBody rs m ''finance''\<rparr> \<and>
           current_page m = Some 1 \<and> total_pages m = 1 \<and>
           \<not> has_next_page m \<and> \<not> has_prev_page m \<and>
           results_per_page m = int (length rs) \<and>
           total_results m = JString (toString (int (length rs)))"
  using assms
  by (simp add: GET_finance finance_branch_def json_ok_def Let_def length_string_def)

theorem finance_metadata_is_fixed_witness:
  "\<exists>rs m. fst (GET sample_env sample_world
              [''q'' \<mapsto> ''AAPL'', ''type'' \<mapsto> ''finance'', ''page'' \<mapsto> ''7'']) =
            \<lparr>status = 200, body = SearchBody rs m ''finance''\<rparr> \<and>
          current_page m = Some 1 \<and> total_pages m = 1 \<and>
          \<not> has_next_page m \<and> \<not> has_prev_page m \<and>
          results_per_page m = int (length rs) \<and>
          total_results m = JString (toString (int (length rs)))"
  using finance_metadata_is_fixed
    [of "[''q'' \<mapsto> ''AAPL'', ''type'' \<mapsto> ''finance'', ''page'' \<mapsto> ''7'']" "''AAPL''"
        sample_env sample_world]
  by (simp add: requested_type_def get_or_def)

lemma GET_cases [case_names no_query books_thrown books_ok finance no_key early serp_thrown serp_ok]:
  obtains
    "\<not> has_query sp"
      "GET env W sp = (json_error 400 ''Query parameter is required'', [])"
  | q e where "sp ''q'' = Some q" "q \<noteq> []" "requested_type sp = ''books''"
      "W 0 (HttpGet OpenLibrary (openLibraryParams q (requested_page sp))) = Inl e"
      "GET env W sp = (catch_block e, [HttpGet OpenLibrary (openLibraryParams q (requested_page sp))])"
  | q d where "sp ''q'' = Some q" "q \<noteq> []" "requested_type sp = ''books''"
      "W 0 (HttpGet OpenLibrary (openLibraryParams q (requested_page sp))) = Inr d"
      "GET env W sp = (books_response d (requested_page sp),
         [HttpGet OpenLibrary (openLibraryParams q (requested_page sp))])"
  | q where "sp ''q'' = Some q" "q \<noteq> []" "requested_type sp = ''finance''"
      "GET env W sp = finance_branch W q"
  | q where "sp ''q'' = Some q" "q \<noteq> []" "requested_type sp \<noteq> ''books''"
      "requested_type sp \<noteq> ''finance''" "\<not> key_configured env"
      "GET env W sp = (json_error 500 ''SerpAPI key not configured'', [])"
  | q k r where "sp ''q'' = Some q" "q \<noteq> []" "requested_type sp = ''flights''"
      "SERPAPI_KEY env = Some k" "k \<noteq> []"
      "flights_params env sp (baseParams q k) = Inl r"
      "GET env W sp = (r, [])"
  | q k ps e where "sp ''q'' = Some q" "q \<noteq> []" "requested_type sp \<noteq> ''books''"
      "requested_type sp \<noteq> ''finance''" "SERPAPI_KEY env = Some k" "k \<noteq> []"
      "searchParams_final env sp q (requested_type sp) (requested_page sp) k = Inr ps"
      "W 0 (HttpGet SerpApi ps) = Inl e"
      "GET env W sp = (catch_block e, [HttpGet SerpApi ps])"
  | q k ps d where "sp ''q'' = Some q" "q \<noteq> []" "requested_type sp \<noteq> ''books''"
      "requested_type sp \<noteq> ''finance''" "SERPAPI_KEY env = Some k" "k \<noteq> []"
      "searchParams_final env sp q (requested_type sp) (requested_page sp) k = Inr ps"
      "W 0 (HttpGet SerpApi ps) = Inr d"
      "GET env W sp =
         (filteredResponse (fst (serp_results (requested_type sp) d))
            (snd (serp_results (requested_type sp) d)) (timeTaken_of d)
            (requested_type sp) (requested_page sp),
          [HttpGet SerpApi ps])"
proof (cases "has_query sp")
  case False
  then show ?thesis using that(1) GET_no_query by blast
next
  case True
  then obtain q where q: "sp ''q'' = Some q" "q \<noteq> []"
    using has_query_iff by blast
  show ?thesis
  proof (cases "requested_type sp = ''books''")
    case True
    show ?thesis
    proof (cases "W 0 (HttpGet OpenLibrary (openLibraryParams q (requested_page sp)))")
      case (Inl e)
      then show ?thesis using that(2) [OF q True Inl] GET_books [OF q True, of env W] by simp
    next
      case (Inr d)
      then show ?thesis using that(3) [OF q True Inr] GET_books [OF q True, of env W] by simp
    qed
  next
    case nb: False
    show ?thesis
    proof (cases "requested_type sp = ''finance''")
      case True
      then show ?thesis using that(4) [OF q True] GET_finance [OF q True] by blast
    next
      case nf: False
      show ?thesis
      proof (cases "key_configured env")
        case False
        then show ?thesis using that(5) [OF q nb nf False] GET_no_key [OF q nb nf False] by blast
      next
        case True
        then obtain k where k: "SERPAPI_KEY env = Some k" "k \<noteq> []"
          using key_configured_iff by blast
        show ?thesis
        proof (cases "searchParams_final env sp q (requested_type sp) (requested_page sp) k")
          case (Inl r)
          then have "requested_type sp = ''flights''"
            "flights_params env sp (baseParams q k) = Inl r"
            using searchParams_final_Inl by blast+
          then show ?thesis using that(6) [OF q _ k] GET_early [OF q nb nf k Inl] by blast
        next
          case (Inr ps)
          show ?thesis
          proof (cases "W 0 (HttpGet SerpApi ps)")
            case e: (Inl e)
            then show ?thesis
              using that(7) [OF q nb nf k Inr e] GET_call [OF q nb nf k Inr, of W] by simp
          next
            case d: (Inr d)
            then show ?thesis
              using that(8) [OF q nb nf k Inr d] GET_call [OF q nb nf k Inr, of W] by simp
          qed
        qed
      qed
    qed
  qed
qed

lemma status_catch_block_eq: "status (catch_block e) = status_for_failure e"
  by (cases e) (simp_all add: status_for_failure_def status_json_error failed_search_failed)

lemma status_for_failure_range: "status_for_failure e \<in> {400, 401, 408, 429, 500}"
  using status_catch_block [of e] by (simp add: status_catch_block_eq)

lemma GET_route_cases [case_names no_query no_key thrown ok]:
  obtains
    "\<not> has_query sp"
      "GET_route env W sp = (json_error 400 ''Query parameter is required'', [])"
  | q where "sp ''q'' = Some q" "q \<noteq> []" "\<not> key_configured env"
      "GET_route env W sp = (json_error 500 ''SerpAPI key not configured'', [])"
  | q k e where "sp ''q'' = Some q" "q \<noteq> []" "SERPAPI_KEY env = Some k" "k \<noteq> []"
      "W 0 (HttpGet SerpApi (route_params q (requested_type sp) (requested_page sp) k)) = Inl e"
      "GET_route env W sp =
         (catch_block e, [HttpGet SerpApi (route_params q (requested_type sp) (requested_page sp) k)])"
  | q k d where "sp ''q'' = Some q" "q \<noteq> []" "SERPAPI_KEY env = Some k" "k \<noteq> []"
      "W 0 (HttpGet SerpApi (route_params q (requested_type sp) (requested_page sp) k)) = Inr d"
      "GET_route env W sp =
         (filteredResponse (fst (route_results (requested_type sp) d))
            (snd (route_results (requested_type sp) d)) (timeTaken_of d)
            (requested_type sp) (requested_page sp),
          [HttpGet SerpApi (route_params q (requested_type sp) (requested_page sp) k)])"
proof (cases "has_query sp")
  case False
  then show ?thesis using that(1) GET_route_no_query by blast
next
  case True
  then obtain q where q: "sp ''q'' = Some q" "q \<noteq> []"
    using has_query_iff by blast
  show ?thesis
  proof (cases "key_configured env")
    case False
    then show ?thesis using that(2) [OF q False] GET_route_no_key [of sp q env W] q by blast
  next
    case True
    then obtain k where k: "SERPAPI_KEY env = Some k" "k \<noteq> []"
      using key_configured_iff by blast
    show ?thesis
    proof (cases "W 0 (HttpGet SerpApi (route_params q (requested_type sp) (requested_page sp) k))")
      case (Inl e)
      then show ?thesis using that(3) [OF q k Inl] GET_route_call [of sp q env k W] q k by simp
    next
      case (Inr d)
      then show ?thesis using that(4) [OF q k Inr] GET_route_call [of sp q env k W] q k by simp
    qed
  qed
qed

section \<open>Failures and their status\<close>

lemma sample_key: "SERPAPI_KEY sample_env = Some ''secret''" "key_configured sample_env"
  by (simp_all add: sample_env_def key_configured_def)

lemma no_key: "SERPAPI_KEY no_key_env = None" "\<not> key_configured no_key_env"
  by (simp_all add: no_key_env_def sample_env_def key_configured_def)

lemma error_catch_block: "\<exists>msg det. body (catch_block e) = ErrorBody msg det \<and> msg \<noteq> []"
  by (cases e) (simp_all add: json_error_def search_failed_def)

lemma failed_iff_error: "failed r \<longleftrightarrow> (\<exists>msg det. body r = ErrorBody msg det)"
  by (cases "body r") (simp_all add: failed_def)

lemma finance_results_all_thrown:
  assumes "\<forall>i c. \<exists>e. W i c = Inl e"
  shows "fst (finance_results W q) = [] \<and> length (snd (finance_results W q)) = 1"
proof -
  have "\<And>ps. fst (alpha_vantage W 0 ps) = None"
    using assms by (auto simp: alpha_vantage_def Let_def split: sum.splits) (metis sum.distinct(1))
  then show ?thesis
    by (simp add: finance_results_def Let_def getTopGainersLosers_def searchSymbol_def
        alpha_vantage_calls)
qed

text \<open>
  C3, as stated, fails: in the finance category the failure of the provider is caught by
  the helper that called it; a request whose provider answers 429 is answered with status
  200 and no \<open>error\<close> field.
\<close>

theorem finance_swallows_provider_failure:
  "status_for_failure rate_limited = 429 \<and>
   map provider_of (snd (GET sample_env (failing_world rate_limited)
     [''q'' \<mapsto> ''IBM'', ''type'' \<mapsto> ''finance''])) = [AlphaVantage] \<and>
   status (fst (GET sample_env (failing_world rate_limited)
     [''q'' \<mapsto> ''IBM'', ''type'' \<mapsto> ''finance''])) = 200 \<and>
   \<not> failed (fst (GET sample_env (failing_world rate_limited)
     [''q'' \<mapsto> ''IBM'', ''type'' \<mapsto> ''finance'']))"
proof -
  let ?sp = "[''q'' \<mapsto> ''IBM'', ''type'' \<mapsto> ''finance'']"
  let ?W = "failing_world rate_limited"
  have g: "GET sample_env ?W ?sp = finance_branch ?W ''IBM''"
    by (rule GET_finance) (simp_all add: requested_type_def get_or_def)
  have "\<forall>i c. \<exists>e. ?W i c = Inl e" by (simp add: failing_world_def)
  then have n: "length (snd (finance_results ?W ''IBM'')) = 1"
    using finance_results_all_thrown by blast
  then obtain c where c: "snd (finance_results ?W ''IBM'') = [c]"
    by (cases "snd (finance_results ?W ''IBM'')") auto
  then have "provider_of c = AlphaVantage"
    using finance_results_provider [of c ?W "''IBM''"] by simp
  with c have "map provider_of (snd (GET sample_env ?W ?sp)) = [AlphaVantage]"
    by (simp add: g snd_finance_branch)
  moreover have "status (fst (GET sample_env ?W ?sp)) = 200"
    by (simp add: g finance_branch_def json_ok_def Let_def)
  moreover have "\<not> failed (fst (GET sample_env ?W ?sp))"
    using succeeded_not_failed [OF succeeded_finance_branch] by (simp add: g)
  moreover have "status_for_failure rate_limited = 429"
    by (simp add: status_for_failure_def rate_limited_def)
  ultimately show ?thesis by blast
qed

text \<open>
  C3, amended. Outside the finance category a request is sent to its provider at most once
  (nothing is retried), and when the provider fails the answer carries an \<open>error\<close> field
  and the status that the failure decides: 401, 429 and 400 are passed on, a timeout gives
  408 and every other failure gives 500. Every answer either succeeds or carries an
  \<open>error\<close> field, and the status of an answer with an \<open>error\<close> field is one of 400, 401, 408,
  429 and 500. In the finance category the failure of the provider is not reported: when
  every request to the provider fails, the answer is still a success with status 200 and no
  result, after a single request. The handler of \<open>route.ts\<close> treats every category as the
  first sentence says.
\<close>

theorem provider_failure_decides_status:
  "(requested_type sp \<noteq> ''finance'' \<longrightarrow>
      length (snd (GET env W sp)) \<le> 1 \<and>
      (\<forall>c e. snd (GET env W sp) = [c] \<and> W 0 c = Inl e \<longrightarrow>
         status (fst (GET env W sp)) = status_for_failure e \<and>
         (\<exists>msg det. body (fst (GET env W sp)) = ErrorBody msg det \<and> msg \<noteq> []))) \<and>
   failed (fst (GET env W sp)) = (\<not> succeeded (fst (GET env W sp))) \<and>
   (failed (fst (GET env W sp)) \<longrightarrow> status (fst (GET env W sp)) \<in> {400, 401, 408, 429, 500}) \<and>
   (has_query sp \<and> requested_type sp = ''finance'' \<and> (\<forall>i c. \<exists>e. W i c = Inl e) \<longrightarrow>
      status (fst (GET env W sp)) = 200 \<and> succeeded (fst (GET env W sp)) \<and>
      results (body (fst (GET env W sp))) = [] \<and> length (snd (GET env W sp)) = 1) \<and>
   length (snd (GET_route env W sp)) \<le> 1 \<and>
   (\<forall>c e. snd (GET_route env W sp) = [c] \<and> W 0 c = Inl e \<longrightarrow>
      status (fst (GET_route env W sp)) = status_for_failure e \<and>
      (\<exists>msg det. body (fst (GET_route env W sp)) = ErrorBody msg det \<and> msg \<noteq> [])) \<and>
   failed (fst (GET_route env W sp)) = (\<not> succeeded (fst (GET_route env W sp))) \<and>
   (failed (fst (GET_route env W sp)) \<longrightarrow>
      status (fst (GET_route env W sp)) \<in> {400, 401, 408, 429, 500})"
proof -
  have A: "(requested_type sp \<noteq> ''finance'' \<longrightarrow>
      length (snd (GET env W sp)) \<le> 1 \<and>
      (\<forall>c e. snd (GET env W sp) = [c] \<and> W 0 c = Inl e \<longrightarrow>
         status (fst (GET env W sp)) = status_for_failure e \<and>
         (\<exists>msg det. body (fst (GET env W sp)) = ErrorBody msg det \<and> msg \<noteq> []))) \<and>
   failed (fst (GET env W sp)) = (\<not> succeeded (fst (GET env W sp))) \<and>
   (failed (fst (GET env W sp)) \<longrightarrow> status (fst (GET env W sp)) \<in> {400, 401, 408, 429, 500})"
  proof (cases env W sp rule: GET_cases)
    case no_query
    then show ?thesis
      using succeeded_not_failed [of "json_error 400 ''Query parameter is required''"]
      by (auto simp: status_json_error failed_json_error)
  next
    case (books_thrown q e)
    then show ?thesis
      using status_for_failure_range [of e] error_catch_block [of e]
        succeeded_not_failed [of "catch_block e"]
      by (auto simp: status_catch_block_eq failed_catch_block)
  next
    case (books_ok q d)
    then show ?thesis
      using succeeded_not_failed [OF succeeded_books_response, of d "requested_page sp"]
      by (auto simp: succeeded_books_response)
  next
    case (finance q)
    then show ?thesis
      using succeeded_not_failed [OF succeeded_finance_branch, of W q]
      by (auto simp: succeeded_finance_branch)
  next
    case (no_key q)
    then show ?thesis
      using succeeded_not_failed [of "json_error 500 ''SerpAPI key not configured''"]
      by (auto simp: status_json_error failed_json_error)
  next
    case (early q k r)
    then have "status r = 400 \<and> failed r" using flights_params_Inl by blast
    with early show ?thesis using succeeded_not_failed [of r] by auto
  next
    case (serp_thrown q k ps e)
    then show ?thesis
      using status_for_failure_range [of e] error_catch_block [of e]
        succeeded_not_failed [of "catch_block e"]
      by (auto simp: status_catch_block_eq failed_catch_block)
  next
    case (serp_ok q k ps d)
    then show ?thesis
      by (auto simp: succeeded_filteredResponse not_failed_filteredResponse)
  qed
  have B: "has_query sp \<and> requested_type sp = ''finance'' \<and> (\<forall>i c. \<exists>e. W i c = Inl e) \<longrightarrow>
      status (fst (GET env W sp)) = 200 \<and> succeeded (fst (GET env W sp)) \<and>
      results (body (fst (GET env W sp))) = [] \<and> length (snd (GET env W sp)) = 1"
  proof (intro impI)
    assume h: "has_query sp \<and> requested_type sp = ''finance'' \<and> (\<forall>i c. \<exists>e. W i c = Inl e)"
    then obtain q where q: "sp ''q'' = Some q" "q \<noteq> []" using has_query_iff by blast
    from h have g: "GET env W sp = finance_branch W q" using GET_finance [of sp q env W] q by blast
    from h have "fst (finance_results W q) = [] \<and> length (snd (finance_results W q)) = 1"
      using finance_results_all_thrown by blast
    then show "status (fst (GET env W sp)) = 200 \<and> succeeded (fst (GET env W sp)) \<and>
      results (body (fst (GET env W sp))) = [] \<and> length (snd (GET env W sp)) = 1"
      unfolding g by (simp add: finance_branch_def json_ok_def Let_def succeeded_def)
  qed
  have C: "length (snd (GET_route env W sp)) \<le> 1 \<and>
   (\<forall>c e. snd (GET_route env W sp) = [c] \<and> W 0 c = Inl e \<longrightarrow>
      status (fst (GET_route env W sp)) = status_for_failure e \<and>
      (\<exists>msg det. body (fst (GET_route env W sp)) = ErrorBody msg det \<and> msg \<noteq> [])) \<and>
   failed (fst (GET_route env W sp)) = (\<not> succeeded (fst (GET_route env W sp))) \<and>
   (failed (fst (GET_route env W sp)) \<longrightarrow>
      status (fst (GET_route env W sp)) \<in> {400, 401, 408, 429, 500})"
  proof (cases env W sp rule: GET_route_cases)
    case no_query
    then show ?thesis
      using succeeded_not_failed [of "json_error 400 ''Query parameter is required''"]
      by (auto simp: status_json_error failed_json_error)
  next
    case (no_key q)
    then show ?thesis
      using succeeded_not_failed [of "json_error 500 ''SerpAPI key not configured''"]
      by (auto simp: status_json_error failed_json_error)
  next
    case (thrown q k e)
    then show ?thesis
      using status_for_failure_range [of e] error_catch_block [of e]
        succeeded_not_failed [of "catch_block e"]
      by (auto simp: status_catch_block_eq failed_catch_block)
  next
    case (ok q k d)
    then show ?thesis
      by (auto simp: succeeded_filteredResponse not_failed_filteredResponse)
  qed
  from A B C show ?thesis by blast
qed

theorem provider_failure_decides_status_witness:
  "status (fst (GET sample_env (failing_world rate_limited) [''q'' \<mapsto> ''cats''])) = 429 \<and>
   failed (fst (GET sample_env (failing_world rate_limited) [''q'' \<mapsto> ''cats''])) \<and>
   length (snd (GET sample_env (failing_world rate_limited) [''q'' \<mapsto> ''cats''])) = 1 \<and>
   status (fst (GET_route sample_env (failing_world timed_out) [''q'' \<mapsto> ''cats''])) = 408 \<and>
   failed (fst (GET_route sample_env (failing_world timed_out) [''q'' \<mapsto> ''cats''])) \<and>
   length (snd (GET_route sample_env (failing_world timed_out) [''q'' \<mapsto> ''cats''])) = 1 \<and>
   succeeded (fst (GET sample_env (failing_world timed_out)
     [''q'' \<mapsto> ''IBM'', ''type'' \<mapsto> ''finance''])) \<and>
   results (body (fst (GET sample_env (failing_world timed_out)
     [''q'' \<mapsto> ''IBM'', ''type'' \<mapsto> ''finance'']))) = []"
proof -
  let ?sp = "[''q'' \<mapsto> ''cats'']"
  let ?fp = "[''q'' \<mapsto> ''IBM'', ''type'' \<mapsto> ''finance'']"
  let ?page = "requested_page ?sp"
  let ?ps = "with_start ?page ((baseParams ''cats'' ''secret'')(''num'' \<mapsto> JNumber resultsPerPage))"
  let ?rs = "route_params ''cats'' (requested_type ?sp) ?page ''secret''"
  have ty: "requested_type ?sp = ''web''" "requested_type ?sp \<noteq> ''finance''"
    by (simp_all add: requested_type_def get_or_def)
  have ps: "searchParams_final sample_env ?sp ''cats'' (requested_type ?sp) ?page ''secret'' = Inr ?ps"
    by (simp add: ty searchParams_final_def)
  have "GET sample_env (failing_world rate_limited) ?sp = (catch_block rate_limited, [HttpGet SerpApi ?ps])"
    using GET_call [of ?sp "''cats''" sample_env "''secret''" ?ps "failing_world rate_limited"] ps ty
    by (simp add: sample_key failing_world_def)
  then have sg: "snd (GET sample_env (failing_world rate_limited) ?sp) = [HttpGet SerpApi ?ps]"
    by simp
  have "GET_route sample_env (failing_world timed_out) ?sp = (catch_block timed_out, [HttpGet SerpApi ?rs])"
    using GET_route_call [of ?sp "''cats''" sample_env "''secret''" "failing_world timed_out"]
    by (simp add: sample_key failing_world_def)
  then have sr: "snd (GET_route sample_env (failing_world timed_out) ?sp) = [HttpGet SerpApi ?rs]"
    by simp
  have wg: "failing_world rate_limited 0 (HttpGet SerpApi ?ps) = Inl rate_limited"
    and wr: "failing_world timed_out 0 (HttpGet SerpApi ?rs) = Inl timed_out"
    by (simp_all add: failing_world_def)
  from provider_failure_decides_status [of ?sp sample_env "failing_world rate_limited"] ty(2) sg wg
  have g: "status (fst (GET sample_env (failing_world rate_limited) ?sp)) = status_for_failure rate_limited \<and>
      (\<exists>msg det. body (fst (GET sample_env (failing_world rate_limited) ?sp)) = ErrorBody msg det \<and> msg \<noteq> [])"
    by blast
  from provider_failure_decides_status [of ?sp sample_env "failing_world timed_out"] sr wr
  have r: "status (fst (GET_route sample_env (failing_world timed_out) ?sp)) = status_for_failure timed_out \<and>
      (\<exists>msg det. body (fst (GET_route sample_env (failing_world timed_out) ?sp)) = ErrorBody msg det \<and> msg \<noteq> [])"
    by blast
  have "has_query ?fp" "requested_type ?fp = ''finance''"
    "\<forall>i c. \<exists>e. failing_world timed_out i c = Inl e"
    by (simp_all add: has_query_def requested_type_def get_or_def failing_world_def)
  with provider_failure_decides_status [of ?fp sample_env "failing_world timed_out"]
  have f: "succeeded (fst (GET sample_env (failing_world timed_out) ?fp)) \<and>
      results (body (fst (GET sample_env (failing_world timed_out) ?fp))) = []"
    by blast
  from g r sg sr f show ?thesis
    by (auto simp: failed_iff_error status_for_failure_def rate_limited_def timed_out_def)
qed

section \<open>The requests sent to the providers\<close>

lemma finance_results_length:
  assumes "\<not> market_query q"
    and "W 0 (HttpGet AlphaVantage [''function'' \<mapsto> JString ''SYMBOL_SEARCH'', ''keywords'' \<mapsto> JString q,
        ''apikey'' \<mapsto> JString ''EMMEZJF2DJ08Y82M'']) = Inr d"
    and "bestMatches d = Some ms"
  shows "length (fst (finance_results W q)) = min 5 (length ms)"
  using assms
  by (simp add: finance_results_def Let_def searchSymbol_def alpha_vantage_def
      quote_loop_lengths min_def)

lemma not_market_query_AAPL: "\<not> market_query ''AAPL''"
  by (simp add: market_query_def toLowerCase_def to_lower_char_def is_upper_def code_unit_def
      startsWith_def)

lemma sample_bestMatches: "length (the (bestMatches sample_data)) = 2" "bestMatches sample_data \<noteq> None"
  by (simp_all add: sample_data_def)

text \<open>
  C2, as stated, fails: a finance request for a symbol sends one search request and one
  quote request for each match; here three requests go to Alpha Vantage.
\<close>

theorem finance_sends_three_requests:
  "map provider_of (snd (GET sample_env sample_world [''q'' \<mapsto> ''AAPL'', ''type'' \<mapsto> ''finance''])) =
     [AlphaVantage, AlphaVantage, AlphaVantage]"
proof -
  let ?sp = "[''q'' \<mapsto> ''AAPL'', ''type'' \<mapsto> ''finance'']"
  let ?calls = "snd (GET sample_env sample_world ?sp)"
  have g: "GET sample_env sample_world ?sp = finance_branch sample_world ''AAPL''"
    by (rule GET_finance) (simp_all add: requested_type_def get_or_def)
  obtain ms where ms: "bestMatches sample_data = Some ms" "length ms = 2"
    using sample_bestMatches by auto
  have "length ?calls = 1 + min 5 (length ms)"
    unfolding g snd_finance_branch
    by (rule finance_results_symbol_search [OF not_market_query_AAPL _ ms(1)])
       (simp add: sample_world_def)
  then have len: "length (map provider_of ?calls) = 3" using ms by simp
  have "\<forall>p \<in> set (map provider_of ?calls). p = AlphaVantage"
    unfolding g snd_finance_branch using finance_results_provider by auto
  then have "replicate (length (map provider_of ?calls)) AlphaVantage = map provider_of ?calls"
    by (rule replicate_length_same)
  then show ?thesis unfolding len by (simp add: numeral_3_eq_3)
qed

text \<open>
  C2, amended. All requests of one inbound request go to a single provider, fixed by the
  category. A request of a category other than finance sends at most one, and exactly one
  whenever it is answered successfully; a request without a query sends none. A finance
  request with a query sends between one and six: one for a market query and, for a symbol
  search that Alpha Vantage answers with a list of matches, one plus one quote request for
  each of the first five matches.
\<close>

theorem requests_go_to_one_provider:
  "(\<forall>c \<in> set (snd (GET env W sp)). provider_of c = category_provider (requested_type sp)) \<and>
   (requested_type sp \<noteq> ''finance'' \<longrightarrow> length (snd (GET env W sp)) \<le> 1) \<and>
   (requested_type sp \<noteq> ''finance'' \<and> succeeded (fst (GET env W sp)) \<longrightarrow>
      length (snd (GET env W sp)) = 1) \<and>
   (\<not> has_query sp \<longrightarrow> snd (GET env W sp) = []) \<and>
   (has_query sp \<and> requested_type sp = ''finance'' \<longrightarrow>
      1 \<le> length (snd (GET env W sp)) \<and> length (snd (GET env W sp)) \<le> 6) \<and>
   (\<forall>q. sp ''q'' = Some q \<and> q \<noteq> [] \<and> requested_type sp = ''finance'' \<and> market_query q \<longrightarrow>
      length (snd (GET env W sp)) = 1) \<and>
   (\<forall>q d ms. sp ''q'' = Some q \<and> q \<noteq> [] \<and> requested_type sp = ''finance'' \<and> \<not> market_query q \<and>
      W 0 (HttpGet AlphaVantage [''function'' \<mapsto> JString ''SYMBOL_SEARCH'',
             ''keywords'' \<mapsto> JString q, ''apikey'' \<mapsto> JString ''EMMEZJF2DJ08Y82M'']) = Inr d \<and>
      bestMatches d = Some ms \<longrightarrow>
      length (snd (GET env W sp)) = 1 + min 5 (length ms))"
proof (cases env W sp rule: GET_cases)
  case no_query
  then show ?thesis by (auto simp: has_query_def succeeded_def json_error_def)
next
  case (books_thrown q e)
  then show ?thesis by (simp add: category_provider_def has_query_def)
next
  case (books_ok q d)
  then show ?thesis by (simp add: category_provider_def has_query_def)
next
  case (finance q)
  then show ?thesis
    using finance_results_provider [of _ W q] finance_results_count [of W q]
      finance_results_market [of q W] finance_results_symbol_search [of q W]
    by (auto simp: snd_finance_branch category_provider_def has_query_def)
next
  case (no_key q)
  then show ?thesis by (auto simp: has_query_def succeeded_def json_error_def)
next
  case (early q k r)
  then have "failed r" using flights_params_Inl by blast
  with early show ?thesis using succeeded_not_failed by (auto simp: has_query_def)
next
  case (serp_thrown q k ps e)
  then show ?thesis by (simp add: category_provider_def has_query_def)
next
  case (serp_ok q k ps d)
  then show ?thesis by (simp add: category_provider_def has_query_def)
qed


lemma GET_web:
  assumes "sp ''q'' = Some q" "q \<noteq> []" "requested_type sp = ''web''"
    "SERPAPI_KEY env = Some k" "k \<noteq> []"
  shows "GET env W sp =
    (case W 0 (HttpGet SerpApi (with_start (requested_page sp)
                 ((baseParams q k)(''num'' \<mapsto> JNumber resultsPerPage)))) of
       Inl e \<Rightarrow> catch_block e
     | Inr d \<Rightarrow> filteredResponse (fst (serp_results ''web'' d)) (snd (serp_results ''web'' d))
                 (timeTaken_of d) ''web'' (requested_page sp),
     [HttpGet SerpApi (with_start (requested_page sp)
        ((baseParams q k)(''num'' \<mapsto> JNumber resultsPerPage)))])"
proof -
  have "searchParams_final env sp q (requested_type sp) (requested_page sp) k =
      Inr (with_start (requested_page sp) ((baseParams q k)(''num'' \<mapsto> JNumber resultsPerPage)))"
    using assms(3) by (simp add: searchParams_final_def)
  from GET_call [OF assms(1,2) _ _ assms(4,5) this, of W] assms(3) show ?thesis
    by (simp cong: sum.case_cong)
qed

lemma sample_web_request:
  "GET sample_env sample_world [''q'' \<mapsto> ''cats''] =
    (filteredResponse (fst (serp_results ''web'' sample_data)) (snd (serp_results ''web'' sample_data))
       (timeTaken_of sample_data) ''web'' (requested_page [''q'' \<mapsto> ''cats'']),
     [HttpGet SerpApi (with_start (requested_page [''q'' \<mapsto> ''cats''])
        ((baseParams ''cats'' ''secret'')(''num'' \<mapsto> JNumber resultsPerPage)))])"
  using GET_web [of "[''q'' \<mapsto> ''cats'']" "''cats''" sample_env "''secret''" sample_world]
  by (simp add: requested_type_def get_or_def sample_key sample_world_def)

theorem requests_go_to_one_provider_witness:
  "length (snd (GET sample_env sample_world [''q'' \<mapsto> ''cats''])) = 1 \<and>
   length (snd (GET sample_env sample_world
                  [''q'' \<mapsto> ''AAPL'', ''type'' \<mapsto> ''finance'', ''page'' \<mapsto> ''3''])) = 3"
proof -
  let ?web = "[''q'' \<mapsto> ''cats'']"
  let ?fin = "[''q'' \<mapsto> ''AAPL'', ''type'' \<mapsto> ''finance'', ''page'' \<mapsto> ''3'']"
  have "succeeded (fst (GET sample_env sample_world ?web))"
    by (simp add: sample_web_request succeeded_filteredResponse)
  moreover have "requested_type ?web \<noteq> ''finance''"
    by (simp add: requested_type_def get_or_def)
  ultimately have one: "length (snd (GET sample_env sample_world ?web)) = 1"
    using requests_go_to_one_provider [of sample_env sample_world ?web] by blast
  obtain ms where ms: "bestMatches sample_data = Some ms" "length ms = 2"
    using sample_bestMatches by auto
  have "?fin ''q'' = Some ''AAPL'' \<and> ''AAPL'' \<noteq> [] \<and> requested_type ?fin = ''finance'' \<and>
      \<not> market_query ''AAPL'' \<and>
      sample_world 0 (HttpGet AlphaVantage [''function'' \<mapsto> JString ''SYMBOL_SEARCH'',
             ''keywords'' \<mapsto> JString ''AAPL'', ''apikey'' \<mapsto> JString ''EMMEZJF2DJ08Y82M'']) = Inr sample_data \<and>
      bestMatches sample_data = Some ms"
    using ms(1) not_market_query_AAPL by (simp add: requested_type_def get_or_def sample_world_def)
  then have "length (snd (GET sample_env sample_world ?fin)) = 1 + min 5 (length ms)"
    using requests_go_to_one_provider [of sample_env sample_world ?fin] by blast
  with one ms(2) show ?thesis by simp
qed

section \<open>The API keys\<close>

lemma GET_key_irrelevant:
  "requested_type sp = ''books'' \<or> requested_type sp = ''finance'' \<Longrightarrow>
     GET (env\<lparr>SERPAPI_KEY := key\<rparr>) W sp = GET env W sp"
proof -
  assume "requested_type sp = ''books'' \<or> requested_type sp = ''finance''"
  then have tb: "\<And>q p. try_block (env\<lparr>SERPAPI_KEY := key\<rparr>) W sp q (get_or sp ''type'' ''web'') p =
      try_block env W sp q (get_or sp ''type'' ''web'') p"
    by (auto simp: try_block_def requested_type_def)
  show ?thesis unfolding GET_def Let_def tb by (rule refl)
qed

lemma openLibraryParams_no_key:
  "openLibraryParams q p ''api_key'' = None" "openLibraryParams q p ''apikey'' = None"
  by (simp_all add: openLibraryParams_def Let_def split: option.splits)

lemma sample_books_request:
  "GET no_key_env sample_world [''q'' \<mapsto> ''dune'', ''type'' \<mapsto> ''books''] =
    (books_response sample_data (requested_page [''q'' \<mapsto> ''dune'', ''type'' \<mapsto> ''books'']),
     [HttpGet OpenLibrary (openLibraryParams ''dune''
        (requested_page [''q'' \<mapsto> ''dune'', ''type'' \<mapsto> ''books'']))])"
  using GET_books [of "[''q'' \<mapsto> ''dune'', ''type'' \<mapsto> ''books'']" "''dune''" no_key_env sample_world]
  by (simp add: requested_type_def get_or_def sample_world_def)

text \<open>
  C7, as stated, fails: with no key in the environment a books request is still sent to
  Open Library and answered with status 200.
\<close>

theorem books_need_no_key:
  "SERPAPI_KEY no_key_env = None \<and>
   status (fst (GET no_key_env sample_world [''q'' \<mapsto> ''dune'', ''type'' \<mapsto> ''books''])) = 200 \<and>
   map provider_of (snd (GET no_key_env sample_world [''q'' \<mapsto> ''dune'', ''type'' \<mapsto> ''books''])) =
     [OpenLibrary]"
  by (simp add: sample_books_request no_key books_response_def json_ok_def Let_def)

text \<open>
  C7, amended. Every request sent to SerpAPI carries the key of the process environment,
  and a request with a query whose category is served by SerpAPI (any category but books
  and finance) fails with status 500 and an error message, without any provider being
  contacted, when that key is not configured. Books requests go to Open Library without
  any key and finance requests carry the key written in the handler; neither depends on
  the environment's key.
\<close>

theorem serpapi_key_comes_from_environment:
  "(has_query sp \<and> requested_type sp \<noteq> ''books'' \<and> requested_type sp \<noteq> ''finance'' \<and>
      \<not> key_configured env \<longrightarrow>
      status (fst (GET env W sp)) = 500 \<and>
      body (fst (GET env W sp)) = ErrorBody ''SerpAPI key not configured'' None \<and>
      snd (GET env W sp) = []) \<and>
   (\<forall>c \<in> set (snd (GET env W sp)).
      (provider_of c = SerpApi \<longrightarrow>
         key_configured env \<and> map_option JString (SERPAPI_KEY env) = params_of c ''api_key'') \<and>
      (provider_of c = AlphaVantage \<longrightarrow>
         params_of c ''apikey'' = Some (JString ''EMMEZJF2DJ08Y82M'')) \<and>
      (provider_of c = OpenLibrary \<longrightarrow>
         params_of c ''api_key'' = None \<and> params_of c ''apikey'' = None)) \<and>
   (requested_type sp = ''books'' \<or> requested_type sp = ''finance'' \<longrightarrow>
      (\<forall>key. GET (env\<lparr>SERPAPI_KEY := key\<rparr>) W sp = GET env W sp))"
proof (cases env W sp rule: GET_cases)
  case no_query
  then show ?thesis using GET_key_irrelevant by auto
next
  case (books_thrown q e)
  then show ?thesis using GET_key_irrelevant by (auto simp: openLibraryParams_no_key)
next
  case (books_ok q d)
  then show ?thesis using GET_key_irrelevant by (auto simp: openLibraryParams_no_key)
next
  case (finance q)
  then show ?thesis
    using GET_key_irrelevant [where sp = sp and env = env and W = W] finance_results_provider [of _ W q]
      finance_results_apikey [of _ W q]
    by (auto simp: snd_finance_branch)
next
  case (no_key q)
  then show ?thesis by (auto simp: json_error_def)
next
  case (early q k r)
  then show ?thesis by (auto simp: key_configured_def)
next
  case (serp_thrown q k ps e)
  then show ?thesis using searchParams_final_api_key by (auto simp: key_configured_def)
next
  case (serp_ok q k ps d)
  then show ?thesis using searchParams_final_api_key by (auto simp: key_configured_def)
qed

theorem serpapi_key_comes_from_environment_witness:
  "status (fst (GET no_key_env sample_world [''q'' \<mapsto> ''cats'', ''type'' \<mapsto> ''news''])) = 500 \<and>
   body (fst (GET no_key_env sample_world [''q'' \<mapsto> ''cats'', ''type'' \<mapsto> ''news''])) =
     ErrorBody ''SerpAPI key not configured'' None \<and>
   snd (GET no_key_env sample_world [''q'' \<mapsto> ''cats'', ''type'' \<mapsto> ''news'']) = [] \<and>
   map (\<lambda>c. params_of c ''api_key'') (snd (GET sample_env sample_world [''q'' \<mapsto> ''cats''])) =
     [Some (JString ''secret'')]"
proof -
  have "status (fst (GET no_key_env sample_world [''q'' \<mapsto> ''cats'', ''type'' \<mapsto> ''news''])) = 500 \<and>
   body (fst (GET no_key_env sample_world [''q'' \<mapsto> ''cats'', ''type'' \<mapsto> ''news''])) =
     ErrorBody ''SerpAPI key not configured'' None \<and>
   snd (GET no_key_env sample_world [''q'' \<mapsto> ''cats'', ''type'' \<mapsto> ''news'']) = []"
    using serpapi_key_comes_from_environment
      [of "[''q'' \<mapsto> ''cats'', ''type'' \<mapsto> ''news'']" no_key_env sample_world]
    by (simp add: has_query_def requested_type_def get_or_def no_key)
  moreover
  obtain ps where ps: "snd (GET sample_env sample_world [''q'' \<mapsto> ''cats'']) = [HttpGet SerpApi ps]"
    by (simp add: sample_web_request)
  then have "map_option JString (SERPAPI_KEY sample_env) = ps ''api_key''"
    using serpapi_key_comes_from_environment [of "[''q'' \<mapsto> ''cats'']" sample_env sample_world]
    by simp
  then have "map (\<lambda>c. params_of c ''api_key'') (snd (GET sample_env sample_world [''q'' \<mapsto> ''cats''])) =
     [Some (JString ''secret'')]"
    by (simp add: ps sample_key)
  ultimately show ?thesis by blast
qed

section \<open>The shape of a successful answer\<close>

lemma requested_defaults:
  "sp ''type'' = None \<Longrightarrow> requested_type sp = ''web''"
  "sp ''page'' = None \<Longrightarrow> requested_page sp = Some 1"
  by (simp_all add: requested_type_def requested_page_def get_or_def parseInt_def parse_unsigned_def
      parse_digits_def startsWith_def digit_value_def hex_value_def is_digit_def is_space_def
      code_unit_def number_of_digits_def)

lemma toString_nonempty: "toString n \<noteq> []"
  by (simp add: toString_def digits_nonempty)

lemma requested_page_decimal:
  "safe_integer n \<Longrightarrow> sp ''page'' = Some (toString n) \<Longrightarrow> requested_page sp = Some n"
  by (simp add: requested_page_def get_or_def toString_nonempty parseInt_toString)

lemma sample_finance_request:
  "GET sample_env sample_world [''q'' \<mapsto> ''AAPL'', ''type'' \<mapsto> ''finance'', ''page'' \<mapsto> ''2''] =
     finance_branch sample_world ''AAPL''"
  by (rule GET_finance) (simp_all add: requested_type_def get_or_def)

lemma toString_2: "toString 2 = ''2''"
  by (simp add: toString_def digits.simps digit_char_def char_of_eq_iff)

text \<open>
  C8, as stated, fails: a finance request for page 2 is answered successfully with
  \<open>current_page\<close> 1.
\<close>

theorem finance_ignores_requested_page:
  "requested_page [''q'' \<mapsto> ''AAPL'', ''type'' \<mapsto> ''finance'', ''page'' \<mapsto> ''2''] = Some 2 \<and>
   succeeded (fst (GET sample_env sample_world
                     [''q'' \<mapsto> ''AAPL'', ''type'' \<mapsto> ''finance'', ''page'' \<mapsto> ''2''])) \<and>
   current_page (metadata (body (fst (GET sample_env sample_world
                     [''q'' \<mapsto> ''AAPL'', ''type'' \<mapsto> ''finance'', ''page'' \<mapsto> ''2''])))) = Some 1"
proof -
  have "requested_page [''q'' \<mapsto> ''AAPL'', ''type'' \<mapsto> ''finance'', ''page'' \<mapsto> ''2''] = Some 2"
    using requested_page_decimal [of 2 "[''q'' \<mapsto> ''AAPL'', ''type'' \<mapsto> ''finance'', ''page'' \<mapsto> ''2'']"]
    by (simp add: toString_2 safe_integer_small)
  then show ?thesis
    by (simp add: sample_finance_request succeeded_finance_branch)
       (simp add: finance_branch_def json_ok_def Let_def)
qed

text \<open>
  C8, amended. Every successful answer has status 200 and a body made of \<open>results\<close>,
  \<open>search_metadata\<close> (with its eight fields) and \<open>search_type\<close>; both \<open>search_type\<close> fields equal
  the requested \<open>type\<close>, which is \<open>web\<close> when the parameter is absent. For finance
  \<open>current_page\<close> is always 1. For every other category \<open>current_page\<close> is the integer read
  from the requested \<open>page\<close> when that integer is safe (of magnitude below 2 to the power
  53), and \<open>NaN\<close> when no integer can be read; the page read is 1 when the parameter is
  absent, and \<open>n\<close> when the parameter is the decimal text of a safe integer \<open>n\<close>.
\<close>

theorem successful_answer_schema:
  "(succeeded (fst (GET env W sp)) \<longrightarrow>
      (\<exists>rs m. fst (GET env W sp) = \<lparr>status = 200, body = SearchBody rs m (requested_type sp)\<rparr> \<and>
         search_type m = requested_type sp \<and>
         (requested_type sp = ''finance'' \<longrightarrow> current_page m = Some 1) \<and>
         (requested_type sp \<noteq> ''finance'' \<longrightarrow>
            (requested_page sp = None \<longrightarrow> current_page m = None) \<and>
            (\<forall>p. requested_page sp = Some p \<and> safe_integer p \<longrightarrow> current_page m = Some p)))) \<and>
   (sp ''type'' = None \<longrightarrow> requested_type sp = ''web'') \<and>
   (sp ''page'' = None \<longrightarrow> requested_page sp = Some 1) \<and>
   (\<forall>n. safe_integer n \<and> sp ''page'' = Some (toString n) \<longrightarrow> requested_page sp = Some n)"
proof -
  have "succeeded (fst (GET env W sp)) \<longrightarrow>
      (\<exists>rs m. fst (GET env W sp) = \<lparr>status = 200, body = SearchBody rs m (requested_type sp)\<rparr> \<and>
         search_type m = requested_type sp \<and>
         (requested_type sp = ''finance'' \<longrightarrow> current_page m = Some 1) \<and>
         (requested_type sp \<noteq> ''finance'' \<longrightarrow>
            (requested_page sp = None \<longrightarrow> current_page m = None) \<and>
            (\<forall>p. requested_page sp = Some p \<and> safe_integer p \<longrightarrow> current_page m = Some p)))"
  proof (cases env W sp rule: GET_cases)
    case no_query
    then show ?thesis using succeeded_not_failed failed_json_error by fastforce
  next
    case (books_thrown q e)
    then show ?thesis using succeeded_not_failed failed_catch_block by fastforce
  next
    case (books_ok q d)
    then show ?thesis by (simp add: books_response_def json_ok_def Let_def)
  next
    case (finance q)
    then show ?thesis by (simp add: finance_branch_def json_ok_def Let_def)
  next
    case (no_key q)
    then show ?thesis using succeeded_not_failed failed_json_error by fastforce
  next
    case (early q k r)
    then show ?thesis using succeeded_not_failed flights_params_Inl by fastforce
  next
    case (serp_thrown q k ps e)
    then show ?thesis using succeeded_not_failed failed_catch_block by fastforce
  next
    case (serp_ok q k ps d)
    then show ?thesis by (simp add: filteredResponse_def json_ok_def Let_def)
  qed
  then show ?thesis
    using requested_defaults [of sp] requested_page_decimal [of _ sp] by blast
qed

lemma toString_3: "toString 3 = ''3''"
  by (simp add: toString_def digits.simps digit_char_def char_of_eq_iff)

theorem successful_answer_schema_witness:
  "status (fst (GET sample_env sample_world [''q'' \<mapsto> ''cats'', ''page'' \<mapsto> ''3''])) = 200 \<and>
   body_search_type (body (fst (GET sample_env sample_world [''q'' \<mapsto> ''cats'', ''page'' \<mapsto> ''3'']))) = ''web'' \<and>
   search_type (metadata (body (fst (GET sample_env sample_world
      [''q'' \<mapsto> ''cats'', ''page'' \<mapsto> ''3''])))) = ''web'' \<and>
   current_page (metadata (body (fst (GET sample_env sample_world
      [''q'' \<mapsto> ''cats'', ''page'' \<mapsto> ''3''])))) = Some 3"
proof -
  let ?sp = "[''q'' \<mapsto> ''cats'', ''page'' \<mapsto> ''3'']"
  have ty: "requested_type ?sp = ''web''"
    by (simp add: requested_type_def get_or_def)
  have pg: "requested_page ?sp = Some 3"
    using requested_page_decimal [of 3 ?sp] by (simp add: toString_3 safe_integer_small)
  have "succeeded (fst (GET sample_env sample_world ?sp))"
    using GET_web [of ?sp "''cats''" sample_env "''secret''" sample_world] ty
    by (simp add: sample_key sample_world_def succeeded_filteredResponse)
  with successful_answer_schema [of sample_env sample_world ?sp]
  obtain rs m where "fst (GET sample_env sample_world ?sp) =
        \<lparr>status = 200, body = SearchBody rs m (requested_type ?sp)\<rparr>"
      "search_type m = requested_type ?sp"
      "requested_type ?sp \<noteq> ''finance'' \<longrightarrow>
         (\<forall>p. requested_page ?sp = Some p \<and> safe_integer p \<longrightarrow> current_page m = Some p)"
    by blast
  then show ?thesis using ty pg by (simp add: safe_integer_small)
qed

section \<open>Pagination\<close>

lemma pagination_filteredResponse:
  "pagination_equations (metadata (body (filteredResponse rs tot tm ty pg))) pg"
  by (simp add: pagination_equations_def filteredResponse_def json_ok_def Let_def resultsPerPage_def
      ceil_div_ceiling num_lt_def num_gt_def split: option.splits)

lemma pagination_books_response:
  "num_found d = Some n \<Longrightarrow> safe_integer n \<Longrightarrow>
   pagination_equations (metadata (body (books_response d pg))) pg"
  by (simp add: pagination_equations_def books_response_def json_ok_def Let_def resultsPerPage_def
      ceil_div_ceiling num_lt_def num_gt_def totalResultsNum_of_toString split: option.splits)

lemma not_market_query_MSFT: "\<not> market_query ''MSFT''"
  by (simp add: market_query_def toLowerCase_def to_lower_char_def is_upper_def code_unit_def
      startsWith_def)

text \<open>
  C1, as stated, fails: a finance request that finds two results is answered with
  \<open>results_per_page\<close> 2 instead of 20.
\<close>

theorem finance_page_size_is_result_count:
  "succeeded (fst (GET sample_env sample_world [''q'' \<mapsto> ''MSFT'', ''type'' \<mapsto> ''finance''])) \<and>
   total_results (metadata (body (fst (GET sample_env sample_world
      [''q'' \<mapsto> ''MSFT'', ''type'' \<mapsto> ''finance''])))) = JString ''2'' \<and>
   results_per_page (metadata (body (fst (GET sample_env sample_world
      [''q'' \<mapsto> ''MSFT'', ''type'' \<mapsto> ''finance''])))) = 2 \<and>
   \<not> pagination_equations (metadata (body (fst (GET sample_env sample_world
      [''q'' \<mapsto> ''MSFT'', ''type'' \<mapsto> ''finance''])))) (Some 1)"
proof -
  let ?sp = "[''q'' \<mapsto> ''MSFT'', ''type'' \<mapsto> ''finance'']"
  have g: "GET sample_env sample_world ?sp = finance_branch sample_world ''MSFT''"
    by (rule GET_finance) (simp_all add: requested_type_def get_or_def)
  obtain ms where ms: "bestMatches sample_data = Some ms" "length ms = 2"
    using sample_bestMatches by auto
  have "length (fst (finance_results sample_world ''MSFT'')) = min 5 (length ms)"
    by (rule finance_results_length [OF not_market_query_MSFT _ ms(1)]) (simp add: sample_world_def)
  then have len: "length (fst (finance_results sample_world ''MSFT'')) = 2"
    using ms(2) by simp
  have m: "metadata (body (fst (finance_branch sample_world ''MSFT''))) =
      \<lparr>total_results = JString ''2'', time_taken_displayed = 0.5, search_type = ''finance'',
       current_page = Some 1, total_pages = 1, has_next_page = False, has_prev_page = False,
       results_per_page = 2\<rparr>"
    by (simp add: finance_branch_def json_ok_def Let_def length_string_def len toString_2)
  show ?thesis
    unfolding g by (simp add: succeeded_finance_branch m pagination_equations_def)
qed

text \<open>
  C1, amended. For every successful request of a category other than finance (for books,
  when Open Library reports \<open>num_found\<close> and it is a safe integer), and in \<open>route.ts\<close> for
  every category, the metadata satisfies the pagination equations for the number \<open>N\<close> read
  from \<open>total_results\<close>, provided \<open>N\<close> and the requested page, if it is a number, are safe
  integers (of magnitude below 2 to the power 53): \<open>total_pages\<close> is the ceiling of \<open>N / 20\<close>
  capped at 10, \<open>has_next_page\<close> holds exactly when the requested page is below both that
  ceiling and 10, \<open>has_prev_page\<close> exactly when it is above 1, and \<open>results_per_page\<close> is 20.
\<close>

theorem pagination_follows_reported_count:
  "(succeeded (fst (GET env W sp)) \<and> requested_type sp \<noteq> ''finance'' \<and>
    (requested_type sp = ''books'' \<longrightarrow>
       (\<forall>c d. snd (GET env W sp) = [c] \<and> W 0 c = Inr d \<longrightarrow>
          (\<exists>n. num_found d = Some n \<and> safe_integer n))) \<and>
    safe_integer (totalResultsNum_of (total_results (metadata (body (fst (GET env W sp)))))) \<and>
    (\<forall>p. requested_page sp = Some p \<longrightarrow> safe_integer p) \<longrightarrow>
    pagination_equations (metadata (body (fst (GET env W sp)))) (requested_page sp)) \<and>
   (succeeded (fst (GET_route env W sp)) \<and>
    safe_integer (totalResultsNum_of (total_results (metadata (body (fst (GET_route env W sp)))))) \<and>
    (\<forall>p. requested_page sp = Some p \<longrightarrow> safe_integer p) \<longrightarrow>
    pagination_equations (metadata (body (fst (GET_route env W sp)))) (requested_page sp))"
proof
  show "succeeded (fst (GET env W sp)) \<and> requested_type sp \<noteq> ''finance'' \<and>
    (requested_type sp = ''books'' \<longrightarrow>
       (\<forall>c d. snd (GET env W sp) = [c] \<and> W 0 c = Inr d \<longrightarrow>
          (\<exists>n. num_found d = Some n \<and> safe_integer n))) \<and>
    safe_integer (totalResultsNum_of (total_results (metadata (body (fst (GET env W sp)))))) \<and>
    (\<forall>p. requested_page sp = Some p \<longrightarrow> safe_integer p) \<longrightarrow>
    pagination_equations (metadata (body (fst (GET env W sp)))) (requested_page sp)"
  proof (cases env W sp rule: GET_cases)
    case no_query
    then show ?thesis using succeeded_not_failed failed_json_error by fastforce
  next
    case (books_thrown q e)
    then show ?thesis using succeeded_not_failed failed_catch_block by fastforce
  next
    case (books_ok q d)
    then show ?thesis using pagination_books_response [of d] by auto
  next
    case (finance q)
    then show ?thesis by simp
  next
    case (no_key q)
    then show ?thesis using succeeded_not_failed failed_json_error by fastforce
  next
    case (early q k r)
    then show ?thesis using succeeded_not_failed flights_params_Inl by fastforce
  next
    case (serp_thrown q k ps e)
    then show ?thesis using succeeded_not_failed failed_catch_block by fastforce
  next
    case (serp_ok q k ps d)
    then show ?thesis by (simp add: pagination_filteredResponse)
  qed
  show "succeeded (fst (GET_route env W sp)) \<and>
    safe_integer (totalResultsNum_of (total_results (metadata (body (fst (GET_route env W sp)))))) \<and>
    (\<forall>p. requested_page sp = Some p \<longrightarrow> safe_integer p) \<longrightarrow>
    pagination_equations (metadata (body (fst (GET_route env W sp)))) (requested_page sp)"
  proof (cases env W sp rule: GET_route_cases)
    case no_query
    then show ?thesis using succeeded_not_failed failed_json_error by fastforce
  next
    case (no_key q)
    then show ?thesis using succeeded_not_failed failed_json_error by fastforce
  next
    case (thrown q k e)
    then show ?thesis using succeeded_not_failed failed_catch_block by fastforce
  next
    case (ok q k d)
    then show ?thesis by (simp add: pagination_filteredResponse)
  qed
qed

lemma sample_reported_total:
  "snd (serp_results ''web'' sample_data) = JNumber 12345"
  "snd (route_results ''web'' sample_data) = JNumber 12345"
  by (simp_all add: serp_results_def route_results_def reported_total_def or_else_def Let_def
      sample_data_def empty_data_def)

theorem pagination_follows_reported_count_witness:
  "total_results (metadata (body (fst (GET sample_env sample_world
      [''q'' \<mapsto> ''cats'', ''page'' \<mapsto> ''3''])))) = JNumber 12345 \<and>
   total_pages (metadata (body (fst (GET sample_env sample_world
      [''q'' \<mapsto> ''cats'', ''page'' \<mapsto> ''3''])))) = 10 \<and>
   has_next_page (metadata (body (fst (GET sample_env sample_world
      [''q'' \<mapsto> ''cats'', ''page'' \<mapsto> ''3''])))) \<and>
   has_prev_page (metadata (body (fst (GET sample_env sample_world
      [''q'' \<mapsto> ''cats'', ''page'' \<mapsto> ''3''])))) \<and>
   results_per_page (metadata (body (fst (GET sample_env sample_world
      [''q'' \<mapsto> ''cats'', ''page'' \<mapsto> ''3''])))) = 20 \<and>
   total_pages (metadata (body (fst (GET_route sample_env sample_world
      [''q'' \<mapsto> ''cats'', ''page'' \<mapsto> ''3''])))) = 10 \<and>
   has_next_page (metadata (body (fst (GET_route sample_env sample_world
      [''q'' \<mapsto> ''cats'', ''page'' \<mapsto> ''3''])))) \<and>
   results_per_page (metadata (body (fst (GET_route sample_env sample_world
      [''q'' \<mapsto> ''cats'', ''page'' \<mapsto> ''3''])))) = 20 \<and>
   total_pages (metadata (body (fst (GET no_key_env sample_world
      [''q'' \<mapsto> ''dune'', ''type'' \<mapsto> ''books''])))) = 3 \<and>
   has_next_page (metadata (body (fst (GET no_key_env sample_world
      [''q'' \<mapsto> ''dune'', ''type'' \<mapsto> ''books'']))))"
proof -
  let ?sp = "[''q'' \<mapsto> ''cats'', ''page'' \<mapsto> ''3'']"
  let ?bp = "[''q'' \<mapsto> ''dune'', ''type'' \<mapsto> ''books'']"
  let ?b = "metadata (body (fst (GET no_key_env sample_world ?bp)))"
  have s45: "safe_integer 45" "safe_integer 1" by (simp_all add: safe_integer_def)
  have bty: "requested_type ?bp = ''books''" "requested_type ?bp \<noteq> ''finance''"
    by (simp_all add: requested_type_def get_or_def)
  have bpg: "requested_page ?bp = Some 1"
    using requested_defaults(2) [of ?bp] by simp
  have nf: "num_found sample_data = Some 45"
    by (simp add: sample_data_def empty_data_def)
  have tb: "total_results ?b = JString (toString 45)"
    by (simp add: sample_books_request books_response_def json_ok_def Let_def nf)
  have nb: "totalResultsNum_of (total_results ?b) = 45"
    using totalResultsNum_of_toString [of 45] s45 by (simp add: tb)
  have sb: "succeeded (fst (GET no_key_env sample_world ?bp))"
    by (simp add: sample_books_request succeeded_books_response)
  have hb: "\<forall>c d. snd (GET no_key_env sample_world ?bp) = [c] \<and> sample_world 0 c = Inr d \<longrightarrow>
      (\<exists>n. num_found d = Some n \<and> safe_integer n)"
    using nf s45 by (simp add: sample_world_def)
  from pagination_follows_reported_count [of no_key_env sample_world ?bp] sb bty hb
  have "pagination_equations ?b (Some 1)"
    by (simp add: bpg nb s45)
  then have books: "total_pages ?b = 3 \<and> has_next_page ?b"
    using nb by (simp add: pagination_equations_def Let_def)
  let ?m = "metadata (body (fst (GET sample_env sample_world ?sp)))"
  let ?r = "metadata (body (fst (GET_route sample_env sample_world ?sp)))"
  have ty: "requested_type ?sp = ''web''"
    by (simp add: requested_type_def get_or_def)
  have pg: "requested_page ?sp = Some 3"
    using requested_page_decimal [of 3 ?sp] by (simp add: toString_3 safe_integer_small)
  have g: "fst (GET sample_env sample_world ?sp) =
      filteredResponse (fst (serp_results ''web'' sample_data)) (snd (serp_results ''web'' sample_data))
        (timeTaken_of sample_data) ''web'' (requested_page ?sp)"
    using GET_web [of ?sp "''cats''" sample_env "''secret''" sample_world] ty
    by (simp add: sample_key sample_world_def)
  have r: "fst (GET_route sample_env sample_world ?sp) =
      filteredResponse (fst (route_results ''web'' sample_data)) (snd (route_results ''web'' sample_data))
        (timeTaken_of sample_data) ''web'' (requested_page ?sp)"
    using GET_route_call [of ?sp "''cats''" sample_env "''secret''" sample_world] ty
    by (simp add: sample_key sample_world_def)
  have tg: "total_results ?m = JNumber 12345" and tr: "total_results ?r = JNumber 12345"
    by (simp_all add: g r filteredResponse_def json_ok_def Let_def sample_reported_total)
  have "succeeded (fst (GET sample_env sample_world ?sp))"
    and "succeeded (fst (GET_route sample_env sample_world ?sp))"
    by (simp_all add: g r succeeded_filteredResponse)
  with pagination_follows_reported_count [of sample_env sample_world ?sp] ty
  have "pagination_equations ?m (Some 3)" and "pagination_equations ?r (Some 3)"
    by (simp_all add: pg tg tr totalResultsNum_of_number safe_integer_small)
  then show ?thesis
    using tg tr books
    by (simp add: pagination_equations_def Let_def totalResultsNum_of_number safe_integer_small)
qed

section \<open>Flights requests\<close>

lemma GET_flights:
  assumes "sp ''q'' = Some q" "q \<noteq> []" "requested_type sp = ''flights''"
    "SERPAPI_KEY env = Some k" "k \<noteq> []"
  shows "GET env W sp =
    (case flights_params env sp (baseParams q k) of
       Inl r \<Rightarrow> (r, [])
     | Inr ps \<Rightarrow>
         (case W 0 (HttpGet SerpApi ps) of
            Inl e \<Rightarrow> catch_block e
          | Inr d \<Rightarrow> filteredResponse (fst (serp_results ''flights'' d))
                      (snd (serp_results ''flights'' d)) (timeTaken_of d) ''flights''
                      (requested_page sp),
          [HttpGet SerpApi ps]))"
proof (cases "flights_params env sp (baseParams q k)")
  case (Inl r)
  then have "searchParams_final env sp q (requested_type sp) (requested_page sp) k = Inl r"
    using assms(3) by (simp add: searchParams_final_flights)
  from GET_early [OF assms(1,2) _ _ assms(4,5) this, of W] assms(3) Inl show ?thesis by simp
next
  case (Inr ps)
  then have "searchParams_final env sp q (requested_type sp) (requested_page sp) k = Inr ps"
    using assms(3) by (simp add: searchParams_final_flights)
  from GET_call [OF assms(1,2) _ _ assms(4,5) this, of W] assms(3) Inr show ?thesis
    by (simp cong: sum.case_cong)
qed

lemma flights_rejected:
  assumes "requested_type sp = ''flights''"
    and "\<And>base. \<exists>r. flights_params env sp base = Inl r"
  shows "failed (fst (GET env W sp)) \<and> snd (GET env W sp) = [] \<and>
         status (fst (GET env W sp)) = (if has_query sp \<and> \<not> key_configured env then 500 else 400)"
proof (cases "has_query sp")
  case False
  then show ?thesis by (simp add: GET_no_query failed_json_error status_json_error)
next
  case True
  then obtain q where q: "sp ''q'' = Some q" "q \<noteq> []" using has_query_iff by blast
  show ?thesis
  proof (cases "key_configured env")
    case False
    from GET_no_key [of sp q env W] q assms(1) True False show ?thesis
      by (simp add: failed_json_error status_json_error)
  next
    case kc: True
    then obtain k where k: "SERPAPI_KEY env = Some k" "k \<noteq> []" using key_configured_iff by blast
    obtain r where r: "flights_params env sp (baseParams q k) = Inl r" using assms(2) by blast
    then have "status r = 400 \<and> failed r" by (rule flights_params_Inl)
    with GET_flights [OF q assms(1) k, of W] r kc show ?thesis by simp
  qed
qed

lemma get_or_absent: "sp k = None \<Longrightarrow> get_or sp k d = d"
  by (simp add: get_or_def)

lemma parseInt_1: "parseInt ''1'' = Some 1"
  by (simp add: parseInt_def parse_unsigned_def parse_digits_def startsWith_def digit_value_def
      hex_value_def is_digit_def is_space_def code_unit_def number_of_digits_def)

lemma flights_ids:
  "iata_code ''JFK''" "iata_code ''LAX''"
  by (simp_all add: iata_code_def is_upper_def code_unit_def)

lemma flights_params_return_date_message:
  assumes "airport_id (get_or sp ''departure_id'' []) ''departure'' ''Departure'' ''JFK'' ''New York'' = Inr d"
    and "airport_id (get_or sp ''arrival_id'' []) ''arrival'' ''Arrival'' ''LAX'' ''Los Angeles'' = Inr a"
    and "get_or sp ''flight_type'' ''1'' = ''1''"
    and "date_value env (get_or sp ''return_date'' (getDateString env 14)) = Some r"
    and "date_value env (get_or sp ''outbound_date'' (getDateString env 7)) = Some ob"
    and "r \<le> ob" and "today env \<le> ob"
  shows "flights_params env sp base = Inl (json_error 400 ''Return date must be after departure date.'')"
  using assms by (simp add: flights_params_def Let_def date_lt_def date_le_def)

lemma GET_one_way:
  assumes "requested_type sp = ''flights''" and "get_or sp ''flight_type'' ''1'' \<noteq> ''1''"
  shows "GET env W (sp(''return_date'' := x)) = GET env W sp"
proof -
  have ty: "get_or sp ''type'' ''web'' = ''flights''"
    using assms(1) by (simp add: requested_type_def)
  have tb: "\<And>q p. try_block env W (sp(''return_date'' := x)) q ''flights'' p =
      try_block env W sp q ''flights'' p"
    by (simp add: try_block_def searchParams_final_flights flights_params_one_way [OF assms(2)]
        split: option.splits)
  show ?thesis
    unfolding GET_def Let_def
    by (simp add: get_or_upd ty tb cong: option.case_cong if_cong sum.case_cong)
qed

section \<open>Round trips and their dates\<close>

text \<open>
  C5, as stated, fails: when the SerpAPI key is not configured, a round trip whose return
  date is before its outbound date is answered with status 500, not 400.
\<close>

theorem round_trip_without_key_is_500:
  "date_le (date_value no_key_env ''2030-01-08'') (date_value no_key_env ''2030-01-15'') \<and>
   status (fst (GET no_key_env sample_world
     [''q'' \<mapsto> ''trip'', ''type'' \<mapsto> ''flights'', ''departure_id'' \<mapsto> ''JFK'',
      ''arrival_id'' \<mapsto> ''LAX'', ''flight_type'' \<mapsto> ''1'',
      ''outbound_date'' \<mapsto> ''2030-01-15'', ''return_date'' \<mapsto> ''2030-01-08''])) = 500"
proof -
  let ?sp = "[''q'' \<mapsto> ''trip'', ''type'' \<mapsto> ''flights'', ''departure_id'' \<mapsto> ''JFK'',
      ''arrival_id'' \<mapsto> ''LAX'', ''flight_type'' \<mapsto> ''1'',
      ''outbound_date'' \<mapsto> ''2030-01-15'', ''return_date'' \<mapsto> ''2030-01-08'']"
  have "GET no_key_env sample_world ?sp = (json_error 500 ''SerpAPI key not configured'', [])"
    by (rule GET_no_key [of ?sp "''trip''"]) (simp_all add: requested_type_def get_or_def no_key)
  then show ?thesis
    by (simp add: status_json_error date_le_def no_key_env_def sample_env_def)
qed

text \<open>
  C5, amended. A flights request for a round trip (\<open>flight_type\<close> 1, the default) whose
  return date is earlier than or equal to its outbound date is answered with an error and
  no provider is called; the status is 400, except that it is 500 when the request has a
  query and the SerpAPI key is not configured. When the key is configured, both airports
  are accepted and the outbound date is not in the past, the error is the one of the date
  check. A one-way request is not subject to the check: its answer does not depend on the
  return date.
\<close>

theorem round_trip_dates_are_checked:
  "(requested_type sp = ''flights'' \<and> get_or sp ''flight_type'' ''1'' = ''1'' \<and>
    date_value env (get_or sp ''return_date'' (getDateString env 14)) = Some r \<and>
    date_value env (get_or sp ''outbound_date'' (getDateString env 7)) = Some ob \<and> r \<le> ob \<longrightarrow>
      failed (fst (GET env W sp)) \<and> snd (GET env W sp) = [] \<and>
      status (fst (GET env W sp)) = (if has_query sp \<and> \<not> key_configured env then 500 else 400) \<and>
      (has_query sp \<and> key_configured env \<and> today env \<le> ob \<and>
       (\<exists>d. airport_id (get_or sp ''departure_id'' []) ''departure'' ''Departure'' ''JFK'' ''New York'' = Inr d) \<and>
       (\<exists>a. airport_id (get_or sp ''arrival_id'' []) ''arrival'' ''Arrival'' ''LAX'' ''Los Angeles'' = Inr a) \<longrightarrow>
         body (fst (GET env W sp)) = ErrorBody ''Return date must be after departure date.'' None)) \<and>
   (requested_type sp = ''flights'' \<and> get_or sp ''flight_type'' ''1'' \<noteq> ''1'' \<longrightarrow>
      (\<forall>x. GET env W (sp(''return_date'' := x)) = GET env W sp))"
proof (intro conjI impI allI)
  assume a: "requested_type sp = ''flights'' \<and> get_or sp ''flight_type'' ''1'' = ''1'' \<and>
    date_value env (get_or sp ''return_date'' (getDateString env 14)) = Some r \<and>
    date_value env (get_or sp ''outbound_date'' (getDateString env 7)) = Some ob \<and> r \<le> ob"
  then have rej: "\<And>base. \<exists>x. flights_params env sp base = Inl x"
    by (intro flights_params_return_date) (simp_all add: date_le_def)
  from flights_rejected [OF _ rej, of W] a
  show "failed (fst (GET env W sp))" "snd (GET env W sp) = []"
    "status (fst (GET env W sp)) = (if has_query sp \<and> \<not> key_configured env then 500 else 400)"
    by simp_all
  assume b: "has_query sp \<and> key_configured env \<and> today env \<le> ob \<and>
       (\<exists>d. airport_id (get_or sp ''departure_id'' []) ''departure'' ''Departure'' ''JFK'' ''New York'' = Inr d) \<and>
       (\<exists>a. airport_id (get_or sp ''arrival_id'' []) ''arrival'' ''Arrival'' ''LAX'' ''Los Angeles'' = Inr a)"
  then obtain q k where q: "sp ''q'' = Some q" "q \<noteq> []" and k: "SERPAPI_KEY env = Some k" "k \<noteq> []"
    using has_query_iff key_configured_iff by blast
  from a b have "flights_params env sp (baseParams q k) =
      Inl (json_error 400 ''Return date must be after departure date.'')"
    by (auto intro: flights_params_return_date_message)
  with GET_flights [of sp q env k W] q k a
  show "body (fst (GET env W sp)) = ErrorBody ''Return date must be after departure date.'' None"
    by (simp add: json_error_def)
next
  fix x
  assume "requested_type sp = ''flights'' \<and> get_or sp ''flight_type'' ''1'' \<noteq> ''1''"
  then show "GET env W (sp(''return_date'' := x)) = GET env W sp"
    using GET_one_way by blast
qed

lemma lookup_JFK: "map_option code (findAirportByInput ''JFK'') = Some ''JFK''"
  by code_simp

lemma lookup_LAX: "map_option code (findAirportByInput ''LAX'') = Some ''LAX''"
  by code_simp

lemma sample_airports:
  "airport_id ''JFK'' ''departure'' ''Departure'' ''JFK'' ''New York'' = Inr ''JFK''"
  "airport_id ''LAX'' ''arrival'' ''Arrival'' ''LAX'' ''Los Angeles'' = Inr ''LAX''"
  using lookup_JFK lookup_LAX by (auto simp: airport_id_def split: option.splits)

theorem round_trip_dates_are_checked_witness:
  "status (fst (GET sample_env sample_world
     [''q'' \<mapsto> ''trip'', ''type'' \<mapsto> ''flights'', ''departure_id'' \<mapsto> ''JFK'',
      ''arrival_id'' \<mapsto> ''LAX'', ''outbound_date'' \<mapsto> ''2030-01-15'',
      ''return_date'' \<mapsto> ''2030-01-08''])) = 400 \<and>
   body (fst (GET sample_env sample_world
     [''q'' \<mapsto> ''trip'', ''type'' \<mapsto> ''flights'', ''departure_id'' \<mapsto> ''JFK'',
      ''arrival_id'' \<mapsto> ''LAX'', ''outbound_date'' \<mapsto> ''2030-01-15'',
      ''return_date'' \<mapsto> ''2030-01-08''])) =
     ErrorBody ''Return date must be after departure date.'' None \<and>
   snd (GET sample_env sample_world
     [''q'' \<mapsto> ''trip'', ''type'' \<mapsto> ''flights'', ''departure_id'' \<mapsto> ''JFK'',
      ''arrival_id'' \<mapsto> ''LAX'', ''outbound_date'' \<mapsto> ''2030-01-15'',
      ''return_date'' \<mapsto> ''2030-01-08'']) = []"
proof -
  let ?sp = "[''q'' \<mapsto> ''trip'', ''type'' \<mapsto> ''flights'', ''departure_id'' \<mapsto> ''JFK'',
      ''arrival_id'' \<mapsto> ''LAX'', ''outbound_date'' \<mapsto> ''2030-01-15'',
      ''return_date'' \<mapsto> ''2030-01-08'']"
  have h: "requested_type ?sp = ''flights'' \<and> get_or ?sp ''flight_type'' ''1'' = ''1'' \<and>
    date_value sample_env (get_or ?sp ''return_date'' (getDateString sample_env 14)) = Some 1894060800000 \<and>
    date_value sample_env (get_or ?sp ''outbound_date'' (getDateString sample_env 7)) = Some 1894665600000 \<and>
    (1894060800000 :: int) \<le> 1894665600000"
    by (simp add: requested_type_def get_or_def sample_env_def)
  have k: "has_query ?sp \<and> key_configured sample_env \<and> today sample_env \<le> 1894665600000 \<and>
       (\<exists>d. airport_id (get_or ?sp ''departure_id'' []) ''departure'' ''Departure'' ''JFK'' ''New York'' = Inr d) \<and>
       (\<exists>a. airport_id (get_or ?sp ''arrival_id'' []) ''arrival'' ''Arrival'' ''LAX'' ''Los Angeles'' = Inr a)"
    by (simp add: has_query_def sample_key get_or_def sample_airports) (simp add: sample_env_def)
  from round_trip_dates_are_checked
    [of ?sp sample_env 1894060800000 1894665600000 sample_world] h k
  show ?thesis by simp
qed

lemma GET_flights_sent:
  assumes "requested_type sp = ''flights''" and "snd (GET env W sp) = [HttpGet SerpApi ps]"
  shows "\<exists>q k. sp ''q'' = Some q \<and> q \<noteq> [] \<and> SERPAPI_KEY env = Some k \<and> k \<noteq> [] \<and>
           flights_params env sp (baseParams q k) = Inr ps"
proof (cases env W sp rule: GET_cases)
  case (serp_thrown q k ps' e)
  with assms show ?thesis by (auto simp: searchParams_final_flights)
next
  case (serp_ok q k ps' d)
  with assms show ?thesis by (auto simp: searchParams_final_flights)
qed (use assms in \<open>auto simp: snd_finance_branch\<close>)

lemma flights_params_adults_message:
  assumes "airport_id (get_or sp ''departure_id'' []) ''departure'' ''Departure'' ''JFK'' ''New York'' = Inr d"
    and "airport_id (get_or sp ''arrival_id'' []) ''arrival'' ''Arrival'' ''LAX'' ''Los Angeles'' = Inr a"
    and "\<not> date_lt (date_value env (get_or sp ''outbound_date'' (getDateString env 7))) (Some (today env))"
    and "\<not> (get_or sp ''flight_type'' ''1'' = ''1'' \<and>
            date_le (date_value env (get_or sp ''return_date'' (getDateString env 14)))
              (date_value env (get_or sp ''outbound_date'' (getDateString env 7))))"
    and "parseInt (get_or sp ''adults'' ''1'') = None \<or>
         (\<exists>n. parseInt (get_or sp ''adults'' ''1'') = Some n \<and> (n < 1 \<or> 9 < n))"
  shows "flights_params env sp base = Inl (json_error 400 ''Number of adults must be between 1 and 9.'')"
  using assms by (auto simp add: flights_params_def Let_def num_lt_def num_gt_def)

section \<open>The number of adults\<close>

text \<open>
  C10, as stated, fails: when the SerpAPI key is not configured, a flights request for zero
  adults is answered with status 500, not 400.
\<close>

theorem zero_adults_without_key_is_500:
  "adultsInput [''q'' \<mapsto> ''trip'', ''type'' \<mapsto> ''flights'', ''departure_id'' \<mapsto> ''JFK'',
      ''arrival_id'' \<mapsto> ''LAX'', ''adults'' \<mapsto> ''0''] = ''0'' \<and>
   parseInt ''0'' = Some 0 \<and>
   status (fst (GET no_key_env sample_world
     [''q'' \<mapsto> ''trip'', ''type'' \<mapsto> ''flights'', ''departure_id'' \<mapsto> ''JFK'',
      ''arrival_id'' \<mapsto> ''LAX'', ''adults'' \<mapsto> ''0''])) = 500"
proof -
  let ?sp = "[''q'' \<mapsto> ''trip'', ''type'' \<mapsto> ''flights'', ''departure_id'' \<mapsto> ''JFK'',
      ''arrival_id'' \<mapsto> ''LAX'', ''adults'' \<mapsto> ''0'']"
  have "GET no_key_env sample_world ?sp = (json_error 500 ''SerpAPI key not configured'', [])"
    by (rule GET_no_key [of ?sp "''trip''"]) (simp_all add: requested_type_def get_or_def no_key)
  moreover have "parseInt ''0'' = Some 0"
    by (simp add: parseInt_def parse_unsigned_def parse_digits_def startsWith_def digit_value_def
        hex_value_def is_digit_def is_space_def code_unit_def number_of_digits_def)
  ultimately show ?thesis
    by (simp add: status_json_error adultsInput_def get_or_def)
qed

text \<open>
  C10, amended. In a flights request the \<open>adults\<close> parameter (1 when absent) must read as
  an integer between 1 and 9: a request whose value does not parse or lies outside that
  range is answered with an error before any provider is called, with status 400, or 500
  when the request has a query and the SerpAPI key is not configured; when the key is
  configured and the airports and dates pass their checks, the error is the one of the
  passenger check. A flights request that is sent to SerpAPI has a value between 1 and 9
  and carries the parameter as it was given.
\<close>

theorem adults_are_checked:
  "(requested_type sp = ''flights'' \<and>
    (parseInt (adultsInput sp) = None \<or> (\<exists>n. parseInt (adultsInput sp) = Some n \<and> (n < 1 \<or> 9 < n))) \<longrightarrow>
      failed (fst (GET env W sp)) \<and> snd (GET env W sp) = [] \<and>
      status (fst (GET env W sp)) = (if has_query sp \<and> \<not> key_configured env then 500 else 400) \<and>
      (has_query sp \<and> key_configured env \<and>
       (\<exists>d. airport_id (departureInput sp) ''departure'' ''Departure'' ''JFK'' ''New York'' = Inr d) \<and>
       (\<exists>a. airport_id (arrivalInput sp) ''arrival'' ''Arrival'' ''LAX'' ''Los Angeles'' = Inr a) \<and>
       \<not> date_lt (date_value env (get_or sp ''outbound_date'' (getDateString env 7))) (Some (today env)) \<and>
       \<not> (get_or sp ''flight_type'' ''1'' = ''1'' \<and>
            date_le (date_value env (get_or sp ''return_date'' (getDateString env 14)))
              (date_value env (get_or sp ''outbound_date'' (getDateString env 7)))) \<longrightarrow>
         body (fst (GET env W sp)) = ErrorBody ''Number of adults must be between 1 and 9.'' None)) \<and>
   (requested_type sp = ''flights'' \<longrightarrow>
      (\<forall>ps. snd (GET env W sp) = [HttpGet SerpApi ps] \<longrightarrow>
         (\<exists>n. parseInt (adultsInput sp) = Some n \<and> 1 \<le> n \<and> n \<le> 9) \<and>
         ps ''adults'' = Some (JString (adultsInput sp)))) \<and>
   (sp ''adults'' = None \<longrightarrow> parseInt (adultsInput sp) = Some 1)"
proof (intro conjI impI allI)
  assume a: "requested_type sp = ''flights'' \<and>
    (parseInt (adultsInput sp) = None \<or> (\<exists>n. parseInt (adultsInput sp) = Some n \<and> (n < 1 \<or> 9 < n)))"
  then have rej: "\<And>base. \<exists>x. flights_params env sp base = Inl x"
    by (intro flights_params_adults) (auto simp: adultsInput_def num_lt_def num_gt_def)
  from flights_rejected [OF _ rej, of W] a
  show "failed (fst (GET env W sp))" "snd (GET env W sp) = []"
    "status (fst (GET env W sp)) = (if has_query sp \<and> \<not> key_configured env then 500 else 400)"
    by simp_all
  assume b: "has_query sp \<and> key_configured env \<and>
       (\<exists>d. airport_id (departureInput sp) ''departure'' ''Departure'' ''JFK'' ''New York'' = Inr d) \<and>
       (\<exists>a. airport_id (arrivalInput sp) ''arrival'' ''Arrival'' ''LAX'' ''Los Angeles'' = Inr a) \<and>
       \<not> date_lt (date_value env (get_or sp ''outbound_date'' (getDateString env 7))) (Some (today env)) \<and>
       \<not> (get_or sp ''flight_type'' ''1'' = ''1'' \<and>
            date_le (date_value env (get_or sp ''return_date'' (getDateString env 14)))
              (date_value env (get_or sp ''outbound_date'' (getDateString env 7))))"
  then obtain q k where q: "sp ''q'' = Some q" "q \<noteq> []" and k: "SERPAPI_KEY env = Some k" "k \<noteq> []"
    using has_query_iff key_configured_iff by blast
  from b obtain d a' where
    d: "airport_id (get_or sp ''departure_id'' []) ''departure'' ''Departure'' ''JFK'' ''New York'' = Inr d"
    and a': "airport_id (get_or sp ''arrival_id'' []) ''arrival'' ''Arrival'' ''LAX'' ''Los Angeles'' = Inr a'"
    by (auto simp: departureInput_def arrivalInput_def)
  from a b have "flights_params env sp (baseParams q k) =
      Inl (json_error 400 ''Number of adults must be between 1 and 9.'')"
    by (intro flights_params_adults_message [OF d a']) (simp_all add: adultsInput_def)
  with GET_flights [of sp q env k W] q k a
  show "body (fst (GET env W sp)) = ErrorBody ''Number of adults must be between 1 and 9.'' None"
    by (simp add: json_error_def)
next
  fix ps
  assume t: "requested_type sp = ''flights''" and s: "snd (GET env W sp) = [HttpGet SerpApi ps]"
  from GET_flights_sent [OF t s] obtain q k where
    fp: "flights_params env sp (baseParams q k) = Inr ps" by blast
  from flights_params_Inr_checks(2) [OF fp]
  show "\<exists>n. parseInt (adultsInput sp) = Some n \<and> 1 \<le> n \<and> n \<le> 9"
    by (simp add: adultsInput_def)
  from flights_params_Inr [OF fp]
  show "ps ''adults'' = Some (JString (adultsInput sp))"
    by (auto simp: adultsInput_def)
next
  assume "sp ''adults'' = None"
  then show "parseInt (adultsInput sp) = Some 1"
    by (simp add: adultsInput_def get_or_absent parseInt_1)
qed

lemma parseInt_0_2:
  "parseInt ''0'' = Some 0" "parseInt ''2'' = Some 2"
  by (simp_all add: parseInt_def parse_unsigned_def parse_digits_def startsWith_def digit_value_def
      hex_value_def is_digit_def is_space_def code_unit_def number_of_digits_def)

lemma sample_flights_accepted:
  "\<exists>ps. flights_params sample_env
     [''q'' \<mapsto> ''trip'', ''type'' \<mapsto> ''flights'', ''departure_id'' \<mapsto> ''JFK'',
      ''arrival_id'' \<mapsto> ''LAX'', ''adults'' \<mapsto> ''2''] base = Inr ps"
  by (simp add: flights_params_def Let_def get_or_def sample_airports parseInt_0_2 num_lt_def
      num_gt_def getDateString_def sample_env_def date_lt_def date_le_def)

lemma sample_flights_sent:
  "\<exists>ps. snd (GET sample_env sample_world
     [''q'' \<mapsto> ''trip'', ''type'' \<mapsto> ''flights'', ''departure_id'' \<mapsto> ''JFK'',
      ''arrival_id'' \<mapsto> ''LAX'', ''adults'' \<mapsto> ''2'']) = [HttpGet SerpApi ps]"
proof -
  let ?sp = "[''q'' \<mapsto> ''trip'', ''type'' \<mapsto> ''flights'', ''departure_id'' \<mapsto> ''JFK'',
      ''arrival_id'' \<mapsto> ''LAX'', ''adults'' \<mapsto> ''2'']"
  obtain ps where "flights_params sample_env ?sp (baseParams ''trip'' ''secret'') = Inr ps"
    using sample_flights_accepted by blast
  with GET_flights [of ?sp "''trip''" sample_env "''secret''" sample_world] show ?thesis
    by (simp add: requested_type_def get_or_def sample_key)
qed

theorem adults_are_checked_witness:
  "status (fst (GET sample_env sample_world
     [''q'' \<mapsto> ''trip'', ''type'' \<mapsto> ''flights'', ''departure_id'' \<mapsto> ''JFK'',
      ''arrival_id'' \<mapsto> ''LAX'', ''adults'' \<mapsto> ''0''])) = 400 \<and>
   body (fst (GET sample_env sample_world
     [''q'' \<mapsto> ''trip'', ''type'' \<mapsto> ''flights'', ''departure_id'' \<mapsto> ''JFK'',
      ''arrival_id'' \<mapsto> ''LAX'', ''adults'' \<mapsto> ''0''])) =
     ErrorBody ''Number of adults must be between 1 and 9.'' None \<and>
   snd (GET sample_env sample_world
     [''q'' \<mapsto> ''trip'', ''type'' \<mapsto> ''flights'', ''departure_id'' \<mapsto> ''JFK'',
      ''arrival_id'' \<mapsto> ''LAX'', ''adults'' \<mapsto> ''0'']) = [] \<and>
   map (\<lambda>c. params_of c ''adults'') (snd (GET sample_env sample_world
     [''q'' \<mapsto> ''trip'', ''type'' \<mapsto> ''flights'', ''departure_id'' \<mapsto> ''JFK'',
      ''arrival_id'' \<mapsto> ''LAX'', ''adults'' \<mapsto> ''2''])) = [Some (JString ''2'')]"
proof -
  let ?bad = "[''q'' \<mapsto> ''trip'', ''type'' \<mapsto> ''flights'', ''departure_id'' \<mapsto> ''JFK'',
      ''arrival_id'' \<mapsto> ''LAX'', ''adults'' \<mapsto> ''0'']"
  let ?good = "[''q'' \<mapsto> ''trip'', ''type'' \<mapsto> ''flights'', ''departure_id'' \<mapsto> ''JFK'',
      ''arrival_id'' \<mapsto> ''LAX'', ''adults'' \<mapsto> ''2'']"
  have h: "requested_type ?bad = ''flights'' \<and>
    (parseInt (adultsInput ?bad) = None \<or>
     (\<exists>n. parseInt (adultsInput ?bad) = Some n \<and> (n < 1 \<or> 9 < n)))"
    by (simp add: requested_type_def adultsInput_def get_or_def parseInt_0_2)
  have k: "has_query ?bad \<and> key_configured sample_env \<and>
       (\<exists>d. airport_id (departureInput ?bad) ''departure'' ''Departure'' ''JFK'' ''New York'' = Inr d) \<and>
       (\<exists>a. airport_id (arrivalInput ?bad) ''arrival'' ''Arrival'' ''LAX'' ''Los Angeles'' = Inr a) \<and>
       \<not> date_lt (date_value sample_env (get_or ?bad ''outbound_date'' (getDateString sample_env 7)))
           (Some (today sample_env)) \<and>
       \<not> (get_or ?bad ''flight_type'' ''1'' = ''1'' \<and>
            date_le (date_value sample_env (get_or ?bad ''return_date'' (getDateString sample_env 14)))
              (date_value sample_env (get_or ?bad ''outbound_date'' (getDateString sample_env 7))))"
    by (simp add: has_query_def sample_key departureInput_def arrivalInput_def get_or_def
          sample_airports getDateString_def)
       (simp add: sample_env_def date_lt_def date_le_def)
  from adults_are_checked [of ?bad sample_env sample_world] h k
  have bad: "status (fst (GET sample_env sample_world ?bad)) = 400 \<and>
      body (fst (GET sample_env sample_world ?bad)) =
        ErrorBody ''Number of adults must be between 1 and 9.'' None \<and>
      snd (GET sample_env sample_world ?bad) = []"
    by simp
  obtain ps where ps: "snd (GET sample_env sample_world ?good) = [HttpGet SerpApi ps]"
    using sample_flights_sent by blast
  moreover have "requested_type ?good = ''flights''"
    by (simp add: requested_type_def get_or_def)
  ultimately have "ps ''adults'' = Some (JString (adultsInput ?good))"
    using adults_are_checked [of ?good sample_env sample_world] by blast
  then have "map (\<lambda>c. params_of c ''adults'') (snd (GET sample_env sample_world ?good)) =
      [Some (JString ''2'')]"
    by (simp add: ps adultsInput_def get_or_def)
  with bad show ?thesis by blast
qed

lemma airport_id_accepts:
  "i \<noteq> [] \<Longrightarrow> findAirportByInput i \<noteq> None \<or> three_letters i \<Longrightarrow>
     airport_id i w W' c t = Inr (resolved_code i)"
  by (auto simp: airport_id_def resolved_code_def three_letters_def split: option.splits)

lemma airport_id_resolved:
  "airport_id i w W' c t = Inr a \<Longrightarrow> a = resolved_code i \<and> iata_code a"
  by (auto simp: airport_id_def resolved_code_def findAirportByInput_iata three_letters_iata
      split: if_splits option.splits)

section \<open>The airports of a flights request\<close>

text \<open>
  C6, as stated, fails: when the SerpAPI key is not configured, a flights request without
  a departure input is answered with status 500, not 400.
\<close>

theorem missing_departure_without_key_is_500:
  "departureInput [''q'' \<mapsto> ''trip'', ''type'' \<mapsto> ''flights'', ''arrival_id'' \<mapsto> ''LAX''] = [] \<and>
   status (fst (GET no_key_env sample_world
     [''q'' \<mapsto> ''trip'', ''type'' \<mapsto> ''flights'', ''arrival_id'' \<mapsto> ''LAX''])) = 500"
proof -
  let ?sp = "[''q'' \<mapsto> ''trip'', ''type'' \<mapsto> ''flights'', ''arrival_id'' \<mapsto> ''LAX'']"
  have "GET no_key_env sample_world ?sp = (json_error 500 ''SerpAPI key not configured'', [])"
    by (rule GET_no_key [of ?sp "''trip''"]) (simp_all add: requested_type_def get_or_def no_key)
  then show ?thesis
    by (simp add: status_json_error departureInput_def get_or_def)
qed

text \<open>
  C6, amended. In a flights request with a query, when the SerpAPI key is configured, each
  of the departure and arrival inputs is either resolved by the airport lookup to the
  three-letter code of the airport found or, failing the lookup, accepted in upper case if
  it is exactly three letters; otherwise, and when the input is missing, the request is
  rejected with status 400 and no provider is called (the departure is examined first). A
  request that is sent to SerpAPI carries the two resolved codes, each of three upper-case
  letters. When the key is not configured the request is rejected with status 500 before
  the airports are examined.
\<close>

theorem airports_are_resolved:
  "(has_query sp \<and> key_configured env \<and> requested_type sp = ''flights'' \<longrightarrow>
     (departureInput sp = [] \<longrightarrow>
        status (fst (GET env W sp)) = 400 \<and>
        body (fst (GET env W sp)) = ErrorBody ''Departure airport is required for flight search.'' None \<and>
        snd (GET env W sp) = []) \<and>
     (departureInput sp \<noteq> [] \<and> findAirportByInput (departureInput sp) = None \<and>
      \<not> three_letters (departureInput sp) \<longrightarrow>
        status (fst (GET env W sp)) = 400 \<and> failed (fst (GET env W sp)) \<and> snd (GET env W sp) = []) \<and>
     (departureInput sp \<noteq> [] \<and>
      (findAirportByInput (departureInput sp) \<noteq> None \<or> three_letters (departureInput sp)) \<longrightarrow>
        (arrivalInput sp = [] \<longrightarrow>
           status (fst (GET env W sp)) = 400 \<and>
           body (fst (GET env W sp)) = ErrorBody ''Arrival airport is required for flight search.'' None \<and>
           snd (GET env W sp) = []) \<and>
        (arrivalInput sp \<noteq> [] \<and> findAirportByInput (arrivalInput sp) = None \<and>
         \<not> three_letters (arrivalInput sp) \<longrightarrow>
           status (fst (GET env W sp)) = 400 \<and> failed (fst (GET env W sp)) \<and>
           snd (GET env W sp) = []))) \<and>
   (requested_type sp = ''flights'' \<longrightarrow>
      (\<forall>ps. snd (GET env W sp) = [HttpGet SerpApi ps] \<longrightarrow>
         ps ''departure_id'' = Some (JString (resolved_code (departureInput sp))) \<and>
         iata_code (resolved_code (departureInput sp)) \<and>
         ps ''arrival_id'' = Some (JString (resolved_code (arrivalInput sp))) \<and>
         iata_code (resolved_code (arrivalInput sp)))) \<and>
   (has_query sp \<and> \<not> key_configured env \<and> requested_type sp = ''flights'' \<longrightarrow>
      status (fst (GET env W sp)) = 500 \<and> failed (fst (GET env W sp)) \<and> snd (GET env W sp) = [])"
proof (intro conjI impI allI)
  fix ps
  assume t: "requested_type sp = ''flights''" and s: "snd (GET env W sp) = [HttpGet SerpApi ps]"
  from GET_flights_sent [OF t s] obtain q k where
    fp: "flights_params env sp (baseParams q k) = Inr ps" by blast
  from flights_params_Inr [OF fp] obtain d a where
    d: "airport_id (get_or sp ''departure_id'' []) ''departure'' ''Departure'' ''JFK'' ''New York'' = Inr d"
    and a: "airport_id (get_or sp ''arrival_id'' []) ''arrival'' ''Arrival'' ''LAX'' ''Los Angeles'' = Inr a"
    and p: "ps ''departure_id'' = Some (JString d)" "ps ''arrival_id'' = Some (JString a)"
    by blast
  from airport_id_resolved [OF d] airport_id_resolved [OF a] p
  show "ps ''departure_id'' = Some (JString (resolved_code (departureInput sp)))"
    "iata_code (resolved_code (departureInput sp))"
    "ps ''arrival_id'' = Some (JString (resolved_code (arrivalInput sp)))"
    "iata_code (resolved_code (arrivalInput sp))"
    by (auto simp: departureInput_def arrivalInput_def)
next
  assume "has_query sp \<and> \<not> key_configured env \<and> requested_type sp = ''flights''"
  then obtain q where q: "sp ''q'' = Some q" "q \<noteq> []" and nk: "\<not> key_configured env"
    and t: "requested_type sp = ''flights''"
    using has_query_iff by blast
  from GET_no_key [of sp q env W] q nk t
  show "status (fst (GET env W sp)) = 500" "failed (fst (GET env W sp))" "snd (GET env W sp) = []"
    by (simp_all add: status_json_error failed_json_error)
next
  assume h: "has_query sp \<and> key_configured env \<and> requested_type sp = ''flights''"
  then obtain q k where q: "sp ''q'' = Some q" "q \<noteq> []" and k: "SERPAPI_KEY env = Some k" "k \<noteq> []"
    and t: "requested_type sp = ''flights''"
    using has_query_iff key_configured_iff by blast
  note G = GET_flights [of sp q env k W, OF q t k]
  {
    assume "departureInput sp = []"
    then have "flights_params env sp (baseParams q k) =
        Inl (json_error 400 ''Departure airport is required for flight search.'')"
      using flights_params_departure [of sp _ env "baseParams q k"]
        airport_id_missing [of "''departure''" "''Departure''" "''JFK''" "''New York''"]
      by (simp add: departureInput_def)
    with G show "status (fst (GET env W sp)) = 400"
      "body (fst (GET env W sp)) = ErrorBody ''Departure airport is required for flight search.'' None"
      "snd (GET env W sp) = []"
      by (simp_all add: json_error_def)
  }
  {
    assume "departureInput sp \<noteq> [] \<and> findAirportByInput (departureInput sp) = None \<and>
      \<not> three_letters (departureInput sp)"
    then obtain r where
      "airport_id (get_or sp ''departure_id'' []) ''departure'' ''Departure'' ''JFK'' ''New York'' = Inl r"
      using airport_id_invalid [of "get_or sp ''departure_id'' []" "''departure''" "''Departure''"
          "''JFK''" "''New York''"]
      by (auto simp: departureInput_def)
    then have "flights_params env sp (baseParams q k) = Inl r" "status r = 400 \<and> failed r"
      using flights_params_departure airport_id_Inl by blast+
    with G show "status (fst (GET env W sp)) = 400" "failed (fst (GET env W sp))"
      "snd (GET env W sp) = []"
      by simp_all
  }
  assume "departureInput sp \<noteq> [] \<and>
      (findAirportByInput (departureInput sp) \<noteq> None \<or> three_letters (departureInput sp))"
  then have d: "airport_id (get_or sp ''departure_id'' []) ''departure'' ''Departure'' ''JFK'' ''New York'' =
      Inr (resolved_code (departureInput sp))"
    using airport_id_accepts [of "departureInput sp"] by (simp add: departureInput_def)
  {
    assume "arrivalInput sp = []"
    then have "flights_params env sp (baseParams q k) =
        Inl (json_error 400 ''Arrival airport is required for flight search.'')"
      using flights_params_arrival [OF d, of _ env "baseParams q k"]
        airport_id_missing [of "''arrival''" "''Arrival''" "''LAX''" "''Los Angeles''"]
      by (simp add: arrivalInput_def)
    with G show "status (fst (GET env W sp)) = 400"
      "body (fst (GET env W sp)) = ErrorBody ''Arrival airport is required for flight search.'' None"
      "snd (GET env W sp) = []"
      by (simp_all add: json_error_def)
  }
  {
    assume "arrivalInput sp \<noteq> [] \<and> findAirportByInput (arrivalInput sp) = None \<and>
      \<not> three_letters (arrivalInput sp)"
    then obtain r where
      "airport_id (get_or sp ''arrival_id'' []) ''arrival'' ''Arrival'' ''LAX'' ''Los Angeles'' = Inl r"
      using airport_id_invalid [of "get_or sp ''arrival_id'' []" "''arrival''" "''Arrival''"
          "''LAX''" "''Los Angeles''"]
      by (auto simp: arrivalInput_def)
    then have "flights_params env sp (baseParams q k) = Inl r" "status r = 400 \<and> failed r"
      using flights_params_arrival [OF d] airport_id_Inl by blast+
    with G show "status (fst (GET env W sp)) = 400" "failed (fst (GET env W sp))"
      "snd (GET env W sp) = []"
      by simp_all
  }
qed

lemma sample_resolved: "resolved_code ''JFK'' = ''JFK''" "resolved_code ''LAX'' = ''LAX''"
  using lookup_JFK lookup_LAX by (auto simp: resolved_code_def split: option.splits)

theorem airports_are_resolved_witness:
  "status (fst (GET sample_env sample_world
     [''q'' \<mapsto> ''trip'', ''type'' \<mapsto> ''flights'', ''arrival_id'' \<mapsto> ''LAX''])) = 400 \<and>
   body (fst (GET sample_env sample_world
     [''q'' \<mapsto> ''trip'', ''type'' \<mapsto> ''flights'', ''arrival_id'' \<mapsto> ''LAX''])) =
     ErrorBody ''Departure airport is required for flight search.'' None \<and>
   snd (GET sample_env sample_world
     [''q'' \<mapsto> ''trip'', ''type'' \<mapsto> ''flights'', ''arrival_id'' \<mapsto> ''LAX'']) = [] \<and>
   map (\<lambda>c. (params_of c ''departure_id'', params_of c ''arrival_id''))
     (snd (GET sample_env sample_world
        [''q'' \<mapsto> ''trip'', ''type'' \<mapsto> ''flights'', ''departure_id'' \<mapsto> ''JFK'',
         ''arrival_id'' \<mapsto> ''LAX'', ''adults'' \<mapsto> ''2''])) =
     [(Some (JString ''JFK''), Some (JString ''LAX''))]"
proof -
  let ?bad = "[''q'' \<mapsto> ''trip'', ''type'' \<mapsto> ''flights'', ''arrival_id'' \<mapsto> ''LAX'']"
  let ?good = "[''q'' \<mapsto> ''trip'', ''type'' \<mapsto> ''flights'', ''departure_id'' \<mapsto> ''JFK'',
      ''arrival_id'' \<mapsto> ''LAX'', ''adults'' \<mapsto> ''2'']"
  have "has_query ?bad \<and> key_configured sample_env \<and> requested_type ?bad = ''flights''"
    and "departureInput ?bad = []"
    by (simp_all add: has_query_def sample_key requested_type_def departureInput_def get_or_def)
  with airports_are_resolved [of ?bad sample_env sample_world]
  have bad: "status (fst (GET sample_env sample_world ?bad)) = 400 \<and>
      body (fst (GET sample_env sample_world ?bad)) =
        ErrorBody ''Departure airport is required for flight search.'' None \<and>
      snd (GET sample_env sample_world ?bad) = []"
    by blast
  obtain ps where ps: "snd (GET sample_env sample_world ?good) = [HttpGet SerpApi ps]"
    using sample_flights_sent by blast
  moreover have "requested_type ?good = ''flights''"
    by (simp add: requested_type_def get_or_def)
  ultimately have "ps ''departure_id'' = Some (JString (resolved_code (departureInput ?good))) \<and>
      ps ''arrival_id'' = Some (JString (resolved_code (arrivalInput ?good)))"
    using airports_are_resolved [of ?good sample_env sample_world] by blast
  then have "map (\<lambda>c. (params_of c ''departure_id'', params_of c ''arrival_id''))
      (snd (GET sample_env sample_world ?good)) = [(Some (JString ''JFK''), Some (JString ''LAX''))]"
    by (simp add: ps departureInput_def arrivalInput_def get_or_def sample_resolved)
  with bad show ?thesis by blast
qed

end
